theory Spec2Isabelle
  imports Main
begin

section \<open>Python strings and paths\<close>

text \<open>
  Python's \<open>str\<close> is a sequence of code points. The embedding uses \<^typ>\<open>string\<close>, whose
  characters are the code points below 256; on these the functions of this section compute
  what CPython computes. Strings holding a code point from 256 on are outside the model
  (so the byte-order mark U+FEFF that \<open>parse_file\<close> strips from the left of a line cannot occur).
  Paths follow \<open>posixpath\<close>.
\<close>

definition isspace :: "char \<Rightarrow> bool" where
  \<comment> \<open>\<open>str.isspace\<close> on one character: the set \<open>str.strip()\<close> removes.\<close>
  "isspace c = ((of_char c :: nat) \<in> {9, 10, 11, 12, 13, 28, 29, 30, 31, 32, 133, 160})"

definition is_linebreak :: "char \<Rightarrow> bool" where
  \<comment> \<open>the line boundaries of \<open>str.splitlines\<close> (\<open>\r\n\<close> is handled by \<open>splitlines_aux\<close>)\<close>
  "is_linebreak c = ((of_char c :: nat) \<in> {10, 11, 12, 13, 28, 29, 30, 133})"

definition lower_char :: "char \<Rightarrow> char" where
  "lower_char c =
     (let n = (of_char c :: nat)
      in if (65 \<le> n \<and> n \<le> 90) \<or> (192 \<le> n \<and> n \<le> 222 \<and> n \<noteq> 215)
         then char_of (n + 32) else c)"

definition lower :: "string \<Rightarrow> string" where
  "lower s = map lower_char s"

definition lstrip :: "string \<Rightarrow> string" where
  "lstrip s = dropWhile isspace s"

definition rstrip :: "string \<Rightarrow> string" where
  "rstrip s = rev (dropWhile isspace (rev s))"

definition strip :: "string \<Rightarrow> string" where
  "strip s = rstrip (lstrip s)"

definition lstrip_chars :: "char \<Rightarrow> string \<Rightarrow> string" where
  \<comment> \<open>\<open>s.lstrip(c)\<close> for a one-character argument\<close>
  "lstrip_chars c s = dropWhile (\<lambda>x. x = c) s"

definition rstrip_chars :: "char \<Rightarrow> string \<Rightarrow> string" where
  "rstrip_chars c s = rev (dropWhile (\<lambda>x. x = c) (rev s))"

fun startswith :: "string \<Rightarrow> string \<Rightarrow> bool" where
  \<comment> \<open>\<open>startswith s pre\<close> is \<open>s.startswith(pre)\<close>\<close>
  "startswith s [] = True"
| "startswith [] (p # ps) = False"
| "startswith (x # xs) (p # ps) = (x = p \<and> startswith xs ps)"

definition endswith :: "string \<Rightarrow> string \<Rightarrow> bool" where
  "endswith s suf = startswith (rev s) (rev suf)"

function split_aux :: "string \<Rightarrow> string \<Rightarrow> string \<Rightarrow> string list" where
  "split_aux sep cur [] = [rev cur]"
| "split_aux sep cur (x # xs) =
     (if sep \<noteq> [] \<and> startswith (x # xs) sep
      then rev cur # split_aux sep [] (drop (length sep) (x # xs))
      else split_aux sep (x # cur) xs)"
  by pat_completeness auto
termination
  by (relation "measure (\<lambda>(sep, cur, s). length s)") auto

definition split :: "string \<Rightarrow> string \<Rightarrow> string list" where
  \<comment> \<open>\<open>split sep s\<close> is \<open>s.split(sep)\<close> for a non-empty separator (every call of the
      source passes a literal one)\<close>
  "split sep s = split_aux sep [] s"

fun join :: "string \<Rightarrow> string list \<Rightarrow> string" where
  \<comment> \<open>\<open>join sep xs\<close> is \<open>sep.join(xs)\<close>\<close>
  "join sep [] = []"
| "join sep [x] = x"
| "join sep (x # y # ys) = x @ sep @ join sep (y # ys)"

fun splitlines_aux :: "string \<Rightarrow> string \<Rightarrow> string list" where
  "splitlines_aux cur [] = (if cur = [] then [] else [rev cur])"
| "splitlines_aux cur [x] =
     (if is_linebreak x then [rev cur] else [rev (x # cur)])"
| "splitlines_aux cur (x # y # ys) =
     (if x = char_of (13::nat) \<and> y = char_of (10::nat) then rev cur # splitlines_aux [] ys
      else if is_linebreak x then rev cur # splitlines_aux [] (y # ys)
      else splitlines_aux (x # cur) (y # ys))"

definition splitlines :: "string \<Rightarrow> string list" where
  "splitlines s = splitlines_aux [] s"

definition count_char :: "char \<Rightarrow> string \<Rightarrow> nat" where
  \<comment> \<open>\<open>s.count(c)\<close> for a one-character argument\<close>
  "count_char c s = length (filter (\<lambda>x. x = c) s)"

definition find_from :: "char \<Rightarrow> nat \<Rightarrow> string \<Rightarrow> int" where
  \<comment> \<open>\<open>s.find(c, start)\<close>: the first index from \<open>start\<close> on, or -1\<close>
  "find_from c start s =
     (let rest = drop start s
      in if c \<in> set rest then int start + int (length (takeWhile (\<lambda>x. x \<noteq> c) rest)) else - 1)"

definition rfind :: "char \<Rightarrow> string \<Rightarrow> int" where
  \<comment> \<open>\<open>s.rfind(c)\<close>: the last index, or -1\<close>
  "rfind c s =
     (if c \<in> set s then int (length s) - 1 - int (length (takeWhile (\<lambda>x. x \<noteq> c) (rev s)))
      else - 1)"

definition basename :: "string \<Rightarrow> string" where
  \<comment> \<open>\<open>os.path.basename\<close>: \<open>p[p.rfind('/') + 1:]\<close>\<close>
  "basename p = drop (nat (rfind CHR ''/'' p + 1)) p"

definition dirname :: "string \<Rightarrow> string" where
  \<comment> \<open>\<open>os.path.dirname\<close>: the head up to the last slash, its trailing slashes removed
      unless it consists of slashes only\<close>
  "dirname p =
     (let head = take (nat (rfind CHR ''/'' p + 1)) p
      in if head \<noteq> [] \<and> head \<noteq> replicate (length head) CHR ''/''
         then rstrip_chars CHR ''/'' head else head)"

definition splitext :: "string \<Rightarrow> string \<times> string" where
  \<comment> \<open>\<open>os.path.splitext\<close> (\<open>genericpath._splitext\<close>): the extension starts at the last dot
      of the last component, unless only dots precede it there\<close>
  "splitext p =
     (let sepIndex = rfind CHR ''/'' p;
          dotIndex = rfind CHR ''.'' p
      in if dotIndex > sepIndex \<and>
            (\<exists>c \<in> set (take (nat (dotIndex - (sepIndex + 1))) (drop (nat (sepIndex + 1)) p)).
               c \<noteq> CHR ''.'')
         then (take (nat dotIndex) p, drop (nat dotIndex) p)
         else (p, []))"

section \<open>Enumerations of the data model\<close>

datatype FileType = VIDEO | AUDIO | IMAGE | SUBTITLE | METADATA | OTHER

datatype ProcessType = STRM_GENERATION | RESOURCE_DOWNLOAD | PENDING_WAIT

section \<open>Tree parser (\<open>app/utils/strm/parser.py\<close>)\<close>

text \<open>
  The settings object handed to \<open>TreeParser\<close>: each of the five type lists is a nullable
  comma-separated string (\<open>None\<close> also stands for a key the dictionary does not have).
\<close>

record parser_settings =
  ps_settings_version :: int
  ps_video_file_types :: "string option"
  ps_audio_file_types :: "string option"
  ps_image_file_types :: "string option"
  ps_subtitle_file_types :: "string option"
  ps_metadata_file_types :: "string option"

record TreeParser =
  video_extensions :: "string list"
  audio_extensions :: "string list"
  image_extensions :: "string list"
  subtitle_extensions :: "string list"
  metadata_extensions :: "string list"
  settings_version :: int

definition load_extensions :: "string option \<Rightarrow> string list" where
  \<comment> \<open>\<open>[ext.strip() for ext in (raw or "").split(",") if ext.strip()]\<close>\<close>
  "load_extensions raw =
     (let types = (case raw of None \<Rightarrow> [] | Some s \<Rightarrow> s)
      in map strip (filter (\<lambda>ext. strip ext \<noteq> []) (split '','' types)))"

definition load_settings_from_db :: "parser_settings \<Rightarrow> TreeParser" where
  "load_settings_from_db s =
     \<lparr> video_extensions = load_extensions (ps_video_file_types s),
       audio_extensions = load_extensions (ps_audio_file_types s),
       image_extensions = load_extensions (ps_image_file_types s),
       subtitle_extensions = load_extensions (ps_subtitle_file_types s),
       metadata_extensions = load_extensions (ps_metadata_file_types s),
       settings_version = ps_settings_version s \<rparr>"

definition default_video_extensions :: "string list" where
  "default_video_extensions =
     [''mkv'', ''mp4'', ''avi'', ''rmvb'', ''wmv'', ''mov'', ''m2ts'', ''ts'', ''iso'', ''flv'']"

definition default_audio_extensions :: "string list" where
  "default_audio_extensions = [''mp3'', ''flac'', ''wav'', ''aac'', ''ogg'', ''m4a'', ''wma'']"

definition default_image_extensions :: "string list" where
  "default_image_extensions = [''jpg'', ''jpeg'', ''png'', ''gif'', ''bmp'', ''tiff'', ''webp'']"

definition default_subtitle_extensions :: "string list" where
  "default_subtitle_extensions = [''srt'', ''ass'', ''ssa'', ''vtt'', ''sub'', ''idx'']"

definition default_metadata_extensions :: "string list" where
  "default_metadata_extensions = [''nfo'', ''xml'', ''json'', ''txt'']"

definition or_default :: "string list \<Rightarrow> string list \<Rightarrow> string list" where
  \<comment> \<open>\<open>if not self.xs: self.xs = default\<close>\<close>
  "or_default xs d = (if xs = [] then d else xs)"

definition TreeParser_init :: "parser_settings option \<Rightarrow> TreeParser" where
  \<comment> \<open>\<open>TreeParser.__init__\<close>: empty lists and version 1, then the settings if any, then
      the built-in list for every category that is still empty\<close>
  "TreeParser_init settings =
     (let p0 = (case settings of
                  None \<Rightarrow> \<lparr> video_extensions = [], audio_extensions = [],
                            image_extensions = [], subtitle_extensions = [],
                            metadata_extensions = [], settings_version = 1 \<rparr>
                | Some s \<Rightarrow> load_settings_from_db s)
      in p0 \<lparr> video_extensions := or_default (video_extensions p0) default_video_extensions,
              audio_extensions := or_default (audio_extensions p0) default_audio_extensions,
              image_extensions := or_default (image_extensions p0) default_image_extensions,
              subtitle_extensions :=
                or_default (subtitle_extensions p0) default_subtitle_extensions,
              metadata_extensions :=
                or_default (metadata_extensions p0) default_metadata_extensions \<rparr>)"

definition get_file_type :: "TreeParser \<Rightarrow> string \<Rightarrow> FileType \<times> string" where
  \<comment> \<open>\<open>TreeParser._get_file_type\<close>\<close>
  "get_file_type p filename =
     (let extension = lstrip_chars CHR ''.'' (lower (snd (splitext filename)))
      in if extension \<in> set (video_extensions p) then (VIDEO, extension)
         else if extension \<in> set (audio_extensions p) then (AUDIO, extension)
         else if extension \<in> set (image_extensions p) then (IMAGE, extension)
         else if extension \<in> set (subtitle_extensions p) then (SUBTITLE, extension)
         else if extension \<in> set (metadata_extensions p) then (METADATA, extension)
         else (OTHER, extension))"

definition format_file_path :: "string \<Rightarrow> string" where
  \<comment> \<open>\<open>TreeParser._format_file_path\<close>: cut the path before its second slash\<close>
  "format_file_path file_path =
     (let first_slash = find_from CHR ''/'' 0 file_path
      in if first_slash \<noteq> - 1
         then (let second_slash = find_from CHR ''/'' (nat (first_slash + 1)) file_path
               in if second_slash \<noteq> - 1 then drop (nat second_slash) file_path
                  else file_path)
         else file_path)"

record parsed_file =
  pf_path :: string
  pf_file_type :: FileType
  pf_extension :: string
  pf_file_name :: string
  pf_directory :: string

definition pop_while_longer :: "string list \<Rightarrow> nat \<Rightarrow> string list" where
  \<comment> \<open>\<open>while len(stack) > depth: stack.pop()\<close>; the stack is kept bottom first\<close>
  "pop_while_longer stack depth = take (min (length stack) depth) stack"

definition parse_line :: "TreeParser \<Rightarrow> string list \<times> parsed_file list \<Rightarrow> string
                          \<Rightarrow> string list \<times> parsed_file list" where
  \<comment> \<open>one iteration of the loop of \<open>parse_file\<close> over \<open>(current_path_stack, result)\<close>\<close>
  "parse_line p st raw_line =
     (let current_path_stack = fst st;
          result = snd st;
          line = rstrip raw_line;
          line_depth = count_char CHR ''|'' line;
          item_name = strip (last (split ''|-'' line))
      in if item_name = [] then st
         else
           (let s1 = pop_while_longer current_path_stack line_depth;
                s2 = (if length s1 = line_depth \<and> s1 \<noteq> [] then butlast s1 else s1);
                s3 = s2 @ [item_name];
                full_path = ''/'' @ join ''/'' s3;
                filename = basename full_path
            in if CHR ''.'' \<notin> set filename then (s3, result)
               else
                 (let formatted_path = format_file_path full_path;
                      ft = get_file_type p filename
                  in (s3, result @ [\<lparr> pf_path = formatted_path,
                                       pf_file_type = fst ft,
                                       pf_extension = snd ft,
                                       pf_file_name = filename,
                                       pf_directory = dirname formatted_path \<rparr>]))))"

definition parse_file :: "TreeParser \<Rightarrow> string \<Rightarrow> parsed_file list" where
  \<comment> \<open>\<open>TreeParser.parse_file\<close> from the decoded text on: reading the file and decoding
      it (the only steps that can raise) lie before this point\<close>
  "parse_file p file_content = snd (foldl (parse_line p) ([], []) (splitlines file_content))"


subsection \<open>Scenario inputs of the parser\<close>

definition LF :: char where
  "LF = char_of (10::nat)"

definition scenario_blob :: string where
  \<comment> \<open>the three lines \<open>|root\<close>, \<open>||movies\<close>, \<open>|||a.mkv\<close>\<close>
  "scenario_blob = ''|root'' @ [LF] @ ''||movies'' @ [LF] @ ''|||a.mkv''"

definition scenario_blob_sep :: string where
  \<comment> \<open>the same tree with the \<open>|-\<close> separator before each label\<close>
  "scenario_blob_sep = ''|-root'' @ [LF] @ ''||-movies'' @ [LF] @ ''|||-a.mkv''"

definition scenario_settings :: parser_settings where
  "scenario_settings =
     \<lparr> ps_settings_version = 1, ps_video_file_types = Some ''mkv'',
       ps_audio_file_types = None, ps_image_file_types = None,
       ps_subtitle_file_types = None, ps_metadata_file_types = None \<rparr>"

definition empty_lists_settings :: parser_settings where
  \<comment> \<open>a settings row whose video list is the empty string and whose other lists are absent\<close>
  "empty_lists_settings =
     \<lparr> ps_settings_version = 4, ps_video_file_types = Some [],
       ps_audio_file_types = None, ps_image_file_types = Some [],
       ps_subtitle_file_types = None, ps_metadata_file_types = None \<rparr>"


section \<open>Paths and URLs\<close>

datatype py_exception =
    ValueError          \<comment> \<open>\<open>relative_to\<close> on a path not under \<open>/\<close>; \<open>range\<close> with step 0;
                            a look-up of \<open>process_directory_tree\<close> that finds nothing\<close>
  | TypeError           \<comment> \<open>\<open>SimpleNamespace(**None)\<close>\<close>
  | OSError             \<comment> \<open>a file that cannot be opened for writing\<close>
  | HTTPStatusError nat \<comment> \<open>\<open>raise_for_status\<close> on a response that is not 2xx\<close>
  | RequestError        \<comment> \<open>no response\<close>

type_synonym pure_path = "string \<times> string list"
  \<comment> \<open>a \<open>pathlib.PurePosixPath\<close>: its root (\<open>""\<close>, \<open>"/"\<close> or \<open>"//"\<close>) and its parts after the root\<close>

definition Path :: "string \<Rightarrow> pure_path" where
  "Path s =
     ((if startswith s ''//'' \<and> \<not> startswith s ''///'' then ''//''
       else if startswith s ''/'' then ''/'' else []),
      filter (\<lambda>c. c \<noteq> [] \<and> c \<noteq> ''.'') (split ''/'' s))"

definition path_str :: "pure_path \<Rightarrow> string" where
  \<comment> \<open>\<open>str(path)\<close>\<close>
  "path_str p = (if fst p = [] \<and> snd p = [] then ''.'' else fst p @ join ''/'' (snd p))"

definition relative_to_root :: "pure_path \<Rightarrow> py_exception + pure_path" where
  \<comment> \<open>\<open>path.relative_to("/")\<close>\<close>
  "relative_to_root p = (if fst p = ''/'' then Inr ([], snd p) else Inl ValueError)"

definition truediv :: "string \<Rightarrow> pure_path \<Rightarrow> pure_path" where
  \<comment> \<open>\<open>base / rel\<close> for a relative \<open>rel\<close> (the only use: \<open>rel\<close> comes from \<open>relative_to\<close>)\<close>
  "truediv base rel = (fst (Path base), snd (Path base) @ snd rel)"

definition utf8_encode :: "string \<Rightarrow> string" where
  \<comment> \<open>the UTF-8 bytes of a string of code points below 256\<close>
  "utf8_encode s =
     concat (map (\<lambda>c. let n = (of_char c :: nat)
                        in if n < 128 then [c]
                           else [char_of (192 + n div 64), char_of (128 + n mod 64)]) s)"

definition quote_safe :: "char \<Rightarrow> bool" where
  \<comment> \<open>the bytes \<open>urllib.parse.quote\<close> keeps with its default \<open>safe="/"\<close>\<close>
  "quote_safe c =
     (let n = (of_char c :: nat)
      in (48 \<le> n \<and> n \<le> 57) \<or> (65 \<le> n \<and> n \<le> 90) \<or> (97 \<le> n \<and> n \<le> 122) \<or>
         c \<in> set ''_.-~/'')"

definition hex_digit :: "nat \<Rightarrow> char" where
  "hex_digit n = ''0123456789ABCDEF'' ! (n mod 16)"

definition quote :: "string \<Rightarrow> string" where
  \<comment> \<open>\<open>urllib.parse.quote(s)\<close>\<close>
  "quote s =
     concat (map (\<lambda>b. if quote_safe b then [b]
                        else [CHR ''%'', hex_digit ((of_char b :: nat) div 16),
                              hex_digit ((of_char b :: nat) mod 16)])
                 (utf8_encode s))"

section \<open>Task aggregate and persistent state (\<open>app/models/strm\<close>)\<close>

type_synonym time = int
  \<comment> \<open>a naive local \<open>datetime\<close>, in seconds\<close>

datatype TaskStatus = TASK_PENDING | TASK_RUNNING | TASK_COMPLETED | TASK_FAILED | TASK_CANCELED

datatype DownloadTaskStatus = PENDING | DOWNLOADING | COMPLETED | FAILED | CANCELED | RETRY

datatype log_level = INFO | WARNING | ERROR

text \<open>
  The texts of the source are Chinese string literals with placeholders. A constructor
  stands for each literal and carries the values of its placeholders; floating-point
  placeholders (elapsed seconds, percentages, the progress bar) are not carried.
\<close>

datatype error_text =
    ParentCanceled              \<comment> \<open>"main task has been canceled", set by a handler\<close>
  | CanceledByUser              \<comment> \<open>"task canceled by user", set by \<open>cancel_task\<close>\<close>
  | FileLost                    \<comment> \<open>"file lost, needs reprocessing", set by \<open>continue_task\<close>\<close>
  | ExceptionText py_exception  \<comment> \<open>\<open>get_error_message(e)\<close>\<close>

datatype stage =
    StageStart | StageBatch ProcessType nat | StagePhaseDone ProcessType | StageFinished

datatype log_message =
    CfgHeader | CfgTotalFiles nat | CfgThreads nat | CfgPathReplacement bool
  | CfgReplacementPath string | CfgRetryCount int | CfgRetryInterval int
  | Progress nat nat stage | ProgressWaiting stage
  | PhaseStart ProcessType nat | PhaseNothingToDo ProcessType
  | RetryStart ProcessType nat "nat option" "string option" int int
      \<comment> \<open>thread, task id, file name, attempt about to start, max attempts\<close>
  | RetryScheduled ProcessType nat "nat option" int "string option" int int
      \<comment> \<open>thread, task id, seconds until the retry, file name, attempts made, max attempts\<close>
  | FinalFailure ProcessType nat "nat option" "string option" int
      \<comment> \<open>thread, task id, file name, max attempts\<close>
  | CanceledStop | TaskFailedMsg nat nat | TaskSucceededMsg
  | SummaryRule | SummaryHeader | SummaryElapsed | SummaryTotal nat | SummarySuccess nat
  | SummaryFailed nat | SummaryStrm nat nat | SummaryResource nat nat | SummaryRate
  | ProcessorError py_exception
  | UserCanceled | UserContinued string | ContinueError

type_synonym log_line = "time \<times> log_level \<times> log_message"

text \<open>
  The rows keep the columns that an operation of this theory reads or writes. Left out
  are the name and source file of a Task, the priority, duration and speed of a Sub-Task,
  the creation and update stamps of every row, and the tables \<open>DownloadLog\<close> and
  \<open>StrmLog\<close>, which are only appended to.
\<close>

record strm_task =
  t_id :: nat
  t_status :: TaskStatus
  t_server_id :: nat
  t_download_server_id :: "nat option"
  t_output_dir :: string
  t_total_files :: nat
  t_processed_files :: nat
  t_success_files :: nat
  t_failed_files :: nat
  t_start_time :: "time option"
  t_end_time :: "time option"
  t_created_by_id :: nat
  t_log_content :: "log_line list"
  t_download_duration :: "nat option"
  t_threads :: nat
  t_last_heartbeat :: "time option"
    \<comment> \<open>read and written only where the model class has the attribute, see
        \<open>w_heartbeat_attr\<close>\<close>

record download_task =
  d_id :: nat
  d_task_id :: nat
  d_source_path :: string
  d_target_path :: "string option"
  d_file_type :: FileType
  d_process_type :: ProcessType
  d_status :: DownloadTaskStatus
  d_attempt_count :: int
  d_max_attempts :: int
  d_file_size :: "int option"
  d_download_started :: "time option"
  d_download_completed :: "time option"
  d_worker_id :: "string option"
  d_error_message :: "error_text option"
  d_retry_after :: "time option"

record media_server =
  ms_id :: nat
  ms_base_url :: string

record strm_file =
  sf_id :: nat
  sf_task_id :: nat

record system_settings =
  ss_default_download_server_id :: "nat option"
  ss_default_media_server_id :: "nat option"
  ss_enable_path_replacement :: bool
  ss_replacement_path :: "string option"
  ss_download_threads :: nat
  ss_output_directory :: "string option"
  ss_video_file_types :: "string option"
  ss_audio_file_types :: "string option"
  ss_image_file_types :: "string option"
  ss_subtitle_file_types :: "string option"
  ss_metadata_file_types :: "string option"
  ss_failure_retry_count :: int
  ss_retry_interval_seconds :: int
  ss_logs_directory :: "string option"
  ss_settings_version :: int
  ss_updated_by_id :: "nat option"

datatype http_result = Response nat string | NoResponse

text \<open>
  The state the operations run in: the tables of the store, the file system, and what the
  environment answers. One operation reads one instant of the clock; the environment
  advances it between operations. Whether \<open>StrmTask\<close> objects have the attribute
  \<open>last_heartbeat\<close> is decided by the model class and its bases \<open>BaseModel\<close> and
  \<open>TimestampMixin\<close>, which are declared outside the files at hand; \<open>StrmTask\<close> itself
  declares no such field. \<open>w_heartbeat_attr\<close> stands for \<open>hasattr(task, 'last_heartbeat')\<close>.
\<close>

record world =
  w_clock :: time
  w_heartbeat_attr :: bool
  w_settings :: "system_settings option"
  w_servers :: "media_server list"
  w_tasks :: "strm_task list"
  w_download_tasks :: "download_task list"
  w_strm_files :: "strm_file list"
  w_files :: "(string \<times> string) list"   \<comment> \<open>regular files: path and bytes\<close>
  w_dirs :: "string list"                  \<comment> \<open>directories\<close>
  w_unwritable :: "string list"            \<comment> \<open>paths that \<open>open(p, "w")\<close> and \<open>makedirs\<close> refuse\<close>
  w_undeletable :: "string list"           \<comment> \<open>directories on which \<open>shutil.rmtree\<close> raises\<close>
  w_http :: "(string \<times> http_result) list"  \<comment> \<open>what a GET of each URL gives\<close>

definition datetime_now :: "world \<Rightarrow> time" where
  "datetime_now w = w_clock w"

definition get_task :: "world \<Rightarrow> nat \<Rightarrow> strm_task option" where
  \<comment> \<open>\<open>StrmTask.get_or_none(id=...)\<close>, also \<open>refresh_from_db\<close>\<close>
  "get_task w tid = find (\<lambda>t. t_id t = tid) (w_tasks w)"

definition save_task :: "strm_task \<Rightarrow> world \<Rightarrow> world" where
  "save_task t w = w \<lparr> w_tasks := map (\<lambda>r. if t_id r = t_id t then t else r) (w_tasks w) \<rparr>"

definition get_download_task :: "world \<Rightarrow> nat \<Rightarrow> download_task option" where
  "get_download_task w k = find (\<lambda>d. d_id d = k) (w_download_tasks w)"

definition save_download_task :: "download_task \<Rightarrow> world \<Rightarrow> world" where
  "save_download_task d w =
     w \<lparr> w_download_tasks := map (\<lambda>r. if d_id r = d_id d then d else r) (w_download_tasks w) \<rparr>"

definition get_server :: "world \<Rightarrow> nat \<Rightarrow> media_server option" where
  "get_server w k = find (\<lambda>m. ms_id m = k) (w_servers w)"

definition task_log :: "nat \<Rightarrow> log_level \<Rightarrow> log_message \<Rightarrow> world \<Rightarrow> world" where
  \<comment> \<open>\<open>StrmTask.log\<close>: one more line at the end of \<open>log_content\<close>, saved at once\<close>
  "task_log tid level msg w =
     (case get_task w tid of
        None \<Rightarrow> w
      | Some t \<Rightarrow>
          save_task (t \<lparr> t_log_content := t_log_content t @ [(datetime_now w, level, msg)] \<rparr>) w)"

definition task_is_canceled :: "world \<Rightarrow> nat \<Rightarrow> bool" where
  \<comment> \<open>\<open>task.refresh_from_db()\<close> followed by \<open>task.status == TaskStatus.CANCELED\<close>; a row
      deleted in between (the reload would raise) is not a case of the model\<close>
  "task_is_canceled w tid =
     (case get_task w tid of None \<Rightarrow> False | Some t \<Rightarrow> t_status t = TASK_CANCELED)"

subsection \<open>File system\<close>

definition path_exists :: "world \<Rightarrow> string \<Rightarrow> bool" where
  \<comment> \<open>\<open>os.path.exists\<close>\<close>
  "path_exists w p = (p \<in> fst ` set (w_files w) \<or> p \<in> set (w_dirs w))"

definition getsize :: "world \<Rightarrow> string \<Rightarrow> nat option" where
  \<comment> \<open>\<open>os.path.getsize\<close> of a regular file; \<open>None\<close> stands for \<open>OSError\<close>\<close>
  "getsize w p = map_option length (map_of (w_files w) p)"

definition ancestors :: "pure_path \<Rightarrow> string list" where
  \<comment> \<open>the path and the directories above it, the root excluded\<close>
  "ancestors p = map (\<lambda>k. path_str (fst p, take k (snd p))) [1 ..< Suc (length (snd p))]"

definition ensure_dir_exists :: "string \<Rightarrow> world \<Rightarrow> world" where
  \<comment> \<open>\<open>os.makedirs\<close> unless the directory exists; a failure is logged and swallowed\<close>
  "ensure_dir_exists directory w =
     (if path_exists w directory \<or> directory \<in> set (w_unwritable w) then w
      else w \<lparr> w_dirs := w_dirs w @
                  filter (\<lambda>a. a \<notin> set (w_dirs w)) (ancestors (Path directory)) \<rparr>)"

definition write_file :: "string \<Rightarrow> string \<Rightarrow> world \<Rightarrow> py_exception + world" where
  \<comment> \<open>\<open>open(p, "w")\<close> and \<open>write\<close>: needs the directory of \<open>p\<close>\<close>
  "write_file p bytes w =
     (if p \<in> set (w_unwritable w) \<or> p \<in> set (w_dirs w) \<or>
         (dirname p \<noteq> [] \<and> dirname p \<notin> set (w_dirs w) \<and> dirname p \<noteq> ''/'')
      then Inl OSError
      else Inr (w \<lparr> w_files := (p, bytes) # filter (\<lambda>f. fst f \<noteq> p) (w_files w) \<rparr>))"


section \<open>Heartbeat and progress (\<open>processor.py\<close>, \<open>task_recovery.py\<close>)\<close>

definition truthy_id :: "nat option \<Rightarrow> bool" where
  \<comment> \<open>\<open>if task_id:\<close> on an optional integer\<close>
  "truthy_id k = (case k of None \<Rightarrow> False | Some n \<Rightarrow> n \<noteq> 0)"

definition add_heartbeat_to_task :: "nat \<Rightarrow> world \<Rightarrow> world" where
  \<comment> \<open>\<open>TaskRecoveryService.add_heartbeat_to_task\<close>: "add a heartbeat (if supported)"\<close>
  "add_heartbeat_to_task tid w =
     (case get_task w tid of
        None \<Rightarrow> w
      | Some task \<Rightarrow>
          if w_heartbeat_attr w
          then save_task (task \<lparr> t_last_heartbeat := Some (datetime_now w) \<rparr>) w
          else w)"

definition update_task_heartbeat :: "nat \<Rightarrow> world \<Rightarrow> world" where
  "update_task_heartbeat tid w = add_heartbeat_to_task tid w"

definition log_task_progress :: "nat option \<Rightarrow> nat \<Rightarrow> nat \<Rightarrow> stage \<Rightarrow> world \<Rightarrow> world" where
  \<comment> \<open>\<open>log_task_progress(task, processed, total, stage)\<close>: the task object is reloaded
      from its row first; nothing is logged for a canceled task; any exception (a missing
      task object) is swallowed\<close>
  "log_task_progress task processed total_n st w =
     (case task of
        None \<Rightarrow> w
      | Some tid \<Rightarrow>
          if get_task w tid = None \<or> task_is_canceled w tid then w
          else if total_n > 0 then task_log tid INFO (Progress processed total_n st) w
          else task_log tid INFO (ProgressWaiting st) w)"

definition file_name_of :: "string \<Rightarrow> string option" where
  \<comment> \<open>\<open>source_path.split('/')[-1] if source_path else "unknown file"\<close>; \<open>None\<close> is the
      literal\<close>
  "file_name_of source_path =
     (if source_path = [] then None else Some (last (split ''/'' source_path)))"

definition log_if_task :: "nat option \<Rightarrow> log_level \<Rightarrow> log_message \<Rightarrow> world \<Rightarrow> world" where
  \<comment> \<open>\<open>if self.task: await self.task.log(msg, level=...)\<close>\<close>
  "log_if_task task level msg w = (case task of None \<Rightarrow> w | Some tid \<Rightarrow> task_log tid level msg w)"

function chunks :: "nat \<Rightarrow> 'a list \<Rightarrow> 'a list list" where
  \<comment> \<open>the slices \<open>xs[i : i + n]\<close> for \<open>i\<close> in \<open>range(0, len(xs), n)\<close>\<close>
  "chunks n xs = (if n = 0 \<or> xs = [] then [] else take n xs # chunks n (drop n xs))"
  by pat_completeness auto
termination
  by (relation "measure (\<lambda>(n, xs). length xs)") auto

declare chunks.simps [simp del]

subsection \<open>The two clauses the handlers share\<close>

text \<open>
  \<open>strm_downaload.process_single_task\<close> and \<open>ResourceDownloader.process_single_task\<close>
  have the same text around the call of their handler, up to the wording of the log
  lines; the process kind stands for the wording.
\<close>

definition begin_attempt :: "ProcessType \<Rightarrow> nat option \<Rightarrow> nat option \<Rightarrow> nat \<Rightarrow> download_task
                             \<Rightarrow> world \<Rightarrow> download_task \<times> world" where
  \<comment> \<open>\<open>if task.status == RETRY:\<close> reset the retry fields, save, log the new attempt\<close>
  "begin_attempt kind self_task self_task_id thread_num task w =
     (if d_status task = RETRY
      then
        (let task1 = task \<lparr> d_status := DOWNLOADING, d_retry_after := None,
                             d_error_message := None \<rparr>
         in (task1,
             log_if_task self_task INFO
               (RetryStart kind thread_num self_task_id (file_name_of (d_source_path task1))
                  (d_attempt_count task1 + 1) (d_max_attempts task1))
               (save_download_task task1 w)))
      else (task, w))"

definition on_exception :: "ProcessType \<Rightarrow> nat option \<Rightarrow> nat option \<Rightarrow> int \<Rightarrow> nat \<Rightarrow> py_exception
                            \<Rightarrow> download_task \<Rightarrow> world \<Rightarrow> bool \<times> world" where
  \<comment> \<open>the clause \<open>except Exception as e:\<close> of \<open>process_single_task\<close>\<close>
  "on_exception kind self_task self_task_id retry_interval_seconds thread_num e task w =
     (let task2 = task \<lparr> d_error_message := Some (ExceptionText e),
                          d_attempt_count := d_attempt_count task + 1 \<rparr>
      in if d_attempt_count task2 < d_max_attempts task2
         then
           (let task3 = task2 \<lparr> d_status := RETRY,
                                 d_retry_after := Some (datetime_now w + retry_interval_seconds),
                                 d_worker_id := None,
                                 d_download_started := None,
                                 d_download_completed := None \<rparr>
            in (False,
                save_download_task task3
                  (log_if_task self_task WARNING
                     (RetryScheduled kind thread_num self_task_id retry_interval_seconds
                        (file_name_of (d_source_path task3))
                        (d_attempt_count task3) (d_max_attempts task3)) w)))
         else
           (let task3 = task2 \<lparr> d_status := FAILED \<rparr>
            in (False,
                save_download_task task3
                  (log_if_task self_task ERROR
                     (FinalFailure kind thread_num self_task_id
                        (file_name_of (d_source_path task3)) (d_max_attempts task3)) w))))"


section \<open>STRM writer (\<open>class strm_downaload\<close>)\<close>

record strm_downaload =
  sd_base_url :: string                \<comment> \<open>\<open>self.server.base_url\<close>\<close>
  sd_output_dir :: string
  sd_enable_path_replacement :: bool
  sd_replacement_path :: "string option"
  sd_max_threads :: nat              \<comment> \<open>the step of \<open>range\<close>; a negative one is not represented\<close>
  sd_task :: "nat option"            \<comment> \<open>\<open>self.task\<close>, the parent object, by id\<close>
  sd_task_list :: "nat list"         \<comment> \<open>the Sub-Task objects, by id\<close>
  sd_task_id :: "nat option"
  sd_retry_interval_seconds :: int

definition replace_base_path :: "string \<Rightarrow> string option \<Rightarrow> string" where
  \<comment> \<open>\<open>strm_downaload.replace_base_path\<close>: \<open>pathlist[1] = new_base_path\<close>; an exception
      (\<open>None\<close> has no \<open>startswith\<close>, index 1 out of range) returns the path unchanged\<close>
  "replace_base_path original_path new_base_path =
     (case new_base_path of
        None \<Rightarrow> original_path
      | Some b \<Rightarrow>
          (let b1 = (if startswith b ''/'' then drop 1 b else b);
               b2 = (if endswith b1 ''/'' then butlast b1 else b1);
               pathlist = split ''/'' original_path
           in if length pathlist < 2 then original_path
              else join ''/'' (pathlist [1 := b2])))"

definition strm_url :: "strm_downaload \<Rightarrow> string \<Rightarrow> string \<Rightarrow> string" where
  \<comment> \<open>the first statement of \<open>createstrm\<close>\<close>
  "strm_url self filepath hosts =
     (if sd_enable_path_replacement self
      then hosts @ quote (replace_base_path filepath (sd_replacement_path self))
      else hosts @ quote filepath)"

definition createstrm :: "strm_downaload \<Rightarrow> string \<Rightarrow> string \<Rightarrow> string \<Rightarrow> world
                          \<Rightarrow> (py_exception + string) \<times> world" where
  \<comment> \<open>\<open>strm_downaload.createstrm(filepath, hosts, save_path)\<close>: the target path, or the
      exception it re-raises. The \<open>StrmLog\<close> rows it writes are not represented.\<close>
  "createstrm self filepath hosts save_path w =
     (let url = strm_url self filepath hosts;
          new_path = fst (splitext filepath) @ ''.strm''
      in case relative_to_root (Path new_path) of
           Inl e \<Rightarrow> (Inl e, w)
         | Inr rel \<Rightarrow>
             (let target_path = path_str (truediv save_path rel);
                  directory = dirname target_path;
                  w1 = (if directory \<noteq> [] then ensure_dir_exists directory w else w)
              in case write_file target_path (utf8_encode url) w1 of
                   Inl e \<Rightarrow> (Inl e, w1)
                 | Inr w2 \<Rightarrow> (Inr target_path, w2)))"

definition strm_process_single_task :: "strm_downaload \<Rightarrow> nat \<Rightarrow> nat \<Rightarrow> world \<Rightarrow> bool \<times> world" where
  \<comment> \<open>\<open>strm_downaload.process_single_task(task, thread_num)\<close>; \<open>k\<close> is the id of the
      Sub-Task object, reloaded from its row first. An object whose row is gone is not a
      case of the model: there the reload raises into the \<open>except\<close> clause, which logs on
      the Task from the stale object and has no row to save; here the state is returned
      as it is.\<close>
  "strm_process_single_task self k thread_num w =
     (case get_download_task w k of
        None \<Rightarrow> (False, w)
      | Some task \<Rightarrow>
          if task_is_canceled w (d_task_id task)
          then (False, save_download_task
                  (task \<lparr> d_status := CANCELED, d_error_message := Some ParentCanceled \<rparr>) w)
          else
            (let b = begin_attempt STRM_GENERATION (sd_task self) (sd_task_id self)
                       thread_num task w
             in case createstrm self (d_source_path (fst b)) (sd_base_url self)
                       (sd_output_dir self) (snd b) of
                  (Inr rest, w2) \<Rightarrow>
                    (True, save_download_task
                       ((fst b) \<lparr> d_status := COMPLETED, d_target_path := Some rest \<rparr>) w2)
                | (Inl e, w2) \<Rightarrow>
                    on_exception STRM_GENERATION (sd_task self) (sd_task_id self)
                      (sd_retry_interval_seconds self) thread_num e (fst b) w2))"

fun strm_run_batch :: "strm_downaload \<Rightarrow> nat \<Rightarrow> nat list \<Rightarrow> world \<Rightarrow> world" where
  \<comment> \<open>\<open>asyncio.gather\<close> over one batch, the coroutines taken one after the other in list
      order; \<open>idx\<close> is the position in the batch, \<open>(idx % max_threads) + 1\<close> the thread number\<close>
  "strm_run_batch self idx [] w = w"
| "strm_run_batch self idx (k # ks) w =
     strm_run_batch self (Suc idx) ks
       (snd (strm_process_single_task self k (idx mod sd_max_threads self + 1) w))"

definition self_task_canceled :: "nat option \<Rightarrow> world \<Rightarrow> bool" where
  \<comment> \<open>\<open>if self.task: refresh_from_db(); self.task.status == CANCELED\<close>\<close>
  "self_task_canceled task w = (case task of None \<Rightarrow> False | Some t \<Rightarrow> task_is_canceled w t)"

definition strm_after_batch :: "strm_downaload \<Rightarrow> nat \<Rightarrow> nat \<Rightarrow> world \<Rightarrow> bool \<times> world" where
  \<comment> \<open>the end of one round of the loop of \<open>genstrm\<close>, after \<open>gather\<close>: heartbeat and
      progress line; \<open>False\<close> when the method returns instead\<close>
  "strm_after_batch self total_tasks i w =
     (case sd_task_id self of
        None \<Rightarrow> (True, w)
      | Some tid \<Rightarrow>
          if tid = 0 then (True, w)
          else if self_task_canceled (sd_task self) w then (False, w)
          else (True,
                log_task_progress (sd_task self) (min (i + sd_max_threads self) total_tasks)
                  total_tasks (StageBatch STRM_GENERATION (i div sd_max_threads self + 1))
                  (update_task_heartbeat tid w)))"

fun strm_batches :: "strm_downaload \<Rightarrow> nat \<Rightarrow> nat \<Rightarrow> nat list list \<Rightarrow> world \<Rightarrow> world" where
  \<comment> \<open>\<open>for i in range(0, total_tasks, self.max_threads)\<close> over the remaining batches\<close>
  "strm_batches self total_tasks i [] w = w"
| "strm_batches self total_tasks i (batch # rest) w =
     (if self_task_canceled (sd_task self) w then w
      else
        (let r = strm_after_batch self total_tasks i (strm_run_batch self 0 batch w)
         in if fst r then strm_batches self total_tasks (i + sd_max_threads self) rest (snd r)
            else snd r))"

definition settings_retry_interval :: "world \<Rightarrow> int" where
  \<comment> \<open>\<open>get_settings().get('retry_interval_seconds', 30)\<close>, 30 when there is no row\<close>
  "settings_retry_interval w =
     (case w_settings w of None \<Rightarrow> 30 | Some st \<Rightarrow> ss_retry_interval_seconds st)"

definition genstrm :: "strm_downaload \<Rightarrow> world \<Rightarrow> py_exception option \<times> world" where
  \<comment> \<open>\<open>strm_downaload.genstrm\<close>; \<open>Some e\<close> is the exception that leaves it\<close>
  "genstrm self w =
     (if sd_task_list self = [] then (None, w)
      else if sd_max_threads self = 0 then (Some ValueError, w)
      else (None,
            strm_batches (self \<lparr> sd_retry_interval_seconds := settings_retry_interval w \<rparr>)
              (length (sd_task_list self)) 0
              (chunks (sd_max_threads self) (sd_task_list self)) w))"

section \<open>Resource downloader (\<open>class ResourceDownloader\<close>)\<close>

record ResourceDownloader =
  rd_base_url :: string
  rd_output_dir :: string
  rd_threads :: nat
  rd_task_list :: "nat list"
  rd_task :: "nat option"
  rd_task_id :: "nat option"
  rd_retry_interval_seconds :: int

definition download_worker :: "ResourceDownloader \<Rightarrow> download_task \<Rightarrow> world
                               \<Rightarrow> (py_exception + string) \<times> world" where
  \<comment> \<open>\<open>ResourceDownloader.download_worker\<close>: GET \<open>base_url + source_path\<close> and write the
      body; the \<open>DownloadLog\<close> rows are not represented\<close>
  "download_worker self task w =
     (let url = rd_base_url self @ d_source_path task
      in case relative_to_root (Path (d_source_path task)) of
           Inl e \<Rightarrow> (Inl e, w)
         | Inr rel \<Rightarrow>
             (let save_path = path_str (truediv (rd_output_dir self) rel);
                  directory = dirname save_path;
                  w1 = (if directory \<noteq> [] then ensure_dir_exists directory w else w)
              in case map_of (w_http w) url of
                   None \<Rightarrow> (Inl RequestError, w1)
                 | Some NoResponse \<Rightarrow> (Inl RequestError, w1)
                 | Some (Response code body) \<Rightarrow>
                     if 200 \<le> code \<and> code < 300
                     then (case write_file save_path body w1 of
                             Inl e \<Rightarrow> (Inl e, w1)
                           | Inr w2 \<Rightarrow> (Inr save_path, w2))
                     else (Inl (HTTPStatusError code), w1)))"

definition rd_process_single_task :: "ResourceDownloader \<Rightarrow> nat \<Rightarrow> nat \<Rightarrow> world \<Rightarrow> bool \<times> world" where
  \<comment> \<open>\<open>ResourceDownloader.process_single_task(task, thread_num)\<close>; an object whose row is
      gone is treated as in \<open>strm_process_single_task\<close>\<close>
  "rd_process_single_task self k thread_num w =
     (case get_download_task w k of
        None \<Rightarrow> (False, w)
      | Some task \<Rightarrow>
          if task_is_canceled w (d_task_id task)
          then (False, save_download_task
                  (task \<lparr> d_status := CANCELED, d_error_message := Some ParentCanceled \<rparr>) w)
          else
            (let b = begin_attempt RESOURCE_DOWNLOAD (rd_task self) (rd_task_id self)
                       thread_num task w
             in case download_worker self (fst b) (snd b) of
                  (Inr rest, w2) \<Rightarrow>
                    (True, save_download_task
                       ((fst b) \<lparr> d_status := COMPLETED, d_target_path := Some rest \<rparr>) w2)
                | (Inl e, w2) \<Rightarrow>
                    on_exception RESOURCE_DOWNLOAD (rd_task self) (rd_task_id self)
                      (rd_retry_interval_seconds self) thread_num e (fst b) w2))"

fun rd_run_batch :: "ResourceDownloader \<Rightarrow> nat \<Rightarrow> nat list \<Rightarrow> world \<Rightarrow> world" where
  "rd_run_batch self idx [] w = w"
| "rd_run_batch self idx (k # ks) w =
     rd_run_batch self (Suc idx) ks
       (snd (rd_process_single_task self k (idx mod rd_threads self + 1) w))"

definition rd_after_batch :: "ResourceDownloader \<Rightarrow> nat \<Rightarrow> nat \<Rightarrow> world \<Rightarrow> bool \<times> world" where
  "rd_after_batch self total_tasks i w =
     (case rd_task_id self of
        None \<Rightarrow> (True, w)
      | Some tid \<Rightarrow>
          if tid = 0 then (True, w)
          else if self_task_canceled (rd_task self) w then (False, w)
          else (True,
                log_task_progress (rd_task self) (min (i + rd_threads self) total_tasks)
                  total_tasks (StageBatch RESOURCE_DOWNLOAD (i div rd_threads self + 1))
                  (update_task_heartbeat tid w)))"

fun rd_batches :: "ResourceDownloader \<Rightarrow> nat \<Rightarrow> nat \<Rightarrow> nat list list \<Rightarrow> world \<Rightarrow> world" where
  "rd_batches self total_tasks i [] w = w"
| "rd_batches self total_tasks i (batch # rest) w =
     (if self_task_canceled (rd_task self) w then w
      else
        (let r = rd_after_batch self total_tasks i (rd_run_batch self 0 batch w)
         in if fst r then rd_batches self total_tasks (i + rd_threads self) rest (snd r)
            else snd r))"

definition start_download :: "ResourceDownloader \<Rightarrow> world \<Rightarrow> py_exception option \<times> world" where
  \<comment> \<open>\<open>ResourceDownloader.start_download\<close>\<close>
  "start_download self w =
     (if rd_task_list self = [] then (None, w)
      else if rd_threads self = 0 then (Some ValueError, w)
      else (None,
            rd_batches (self \<lparr> rd_retry_interval_seconds := settings_retry_interval w \<rparr>)
              (length (rd_task_list self)) 0
              (chunks (rd_threads self) (rd_task_list self)) w))"


section \<open>The processor run (\<open>process_directory_tree\<close>)\<close>

text \<open>
  A model object in memory and its row are two things where the code assigns fields
  and saves later. \<open>StrmTask.log\<close> appends to the object's \<open>log_content\<close> and saves that
  one column; \<open>save()\<close> writes every field of the object; \<open>refresh_from_db()\<close> sets every
  field of the object to the value in the row ("all db fields of the model are updated to
  the values currently present in the database"), so it drops assignments that were not
  saved. \<open>task_log\<close> above is \<open>log\<close> on an object that has no unsaved assignment.
\<close>

definition obj_log :: "strm_task \<Rightarrow> log_level \<Rightarrow> log_message \<Rightarrow> world \<Rightarrow> strm_task \<times> world" where
  \<comment> \<open>\<open>await task.log(msg, level)\<close> on the object \<open>task\<close>\<close>
  "obj_log task level msg w =
     (let task' = task \<lparr> t_log_content := t_log_content task @ [(datetime_now w, level, msg)] \<rparr>
      in (task',
          w \<lparr> w_tasks := map (\<lambda>r. if t_id r = t_id task
                                     then r \<lparr> t_log_content := t_log_content task' \<rparr> else r)
                              (w_tasks w) \<rparr>))"

definition obj_refresh :: "strm_task \<Rightarrow> world \<Rightarrow> strm_task" where
  \<comment> \<open>\<open>await task.refresh_from_db()\<close>\<close>
  "obj_refresh task w = (case get_task w (t_id task) of None \<Rightarrow> task | Some r \<Rightarrow> r)"

definition obj_log_task_progress :: "strm_task \<Rightarrow> nat \<Rightarrow> nat \<Rightarrow> stage \<Rightarrow> world
                                     \<Rightarrow> strm_task \<times> world" where
  \<comment> \<open>\<open>log_task_progress(task, processed, total, stage)\<close> on an object that may carry
      unsaved assignments: its first step is \<open>task.refresh_from_db()\<close>\<close>
  "obj_log_task_progress task processed total_n st w =
     (let task1 = obj_refresh task w
      in if t_status task1 = TASK_CANCELED then (task1, w)
         else if total_n > 0 then obj_log task1 INFO (Progress processed total_n st) w
         else obj_log task1 INFO (ProgressWaiting st) w)"

fun obj_logs :: "strm_task \<Rightarrow> (log_level \<times> log_message) list \<Rightarrow> world \<Rightarrow> strm_task \<times> world" where
  "obj_logs task [] w = (task, w)"
| "obj_logs task (m # ms) w =
     (let r = obj_log task (fst m) (snd m) w in obj_logs (fst r) ms (snd r))"

fun task_logs :: "nat \<Rightarrow> (log_level \<times> log_message) list \<Rightarrow> world \<Rightarrow> world" where
  "task_logs tid [] w = w"
| "task_logs tid (m # ms) w = task_logs tid ms (task_log tid (fst m) (snd m) w)"

definition log_processor_settings_to_task :: "nat \<Rightarrow> system_settings \<Rightarrow> nat \<Rightarrow> world \<Rightarrow> world" where
  "log_processor_settings_to_task tid settings total_files w =
     task_logs tid
       ([(INFO, CfgHeader), (INFO, CfgTotalFiles total_files),
         (INFO, CfgThreads (ss_download_threads settings)),
         (INFO, CfgPathReplacement (ss_enable_path_replacement settings))] @
        (if ss_enable_path_replacement settings \<and> ss_replacement_path settings \<noteq> None \<and>
            ss_replacement_path settings \<noteq> Some []
         then [(INFO, CfgReplacementPath (case ss_replacement_path settings of
                                            None \<Rightarrow> [] | Some r \<Rightarrow> r))]
         else []) @
        [(INFO, CfgRetryCount (ss_failure_retry_count settings)),
         (INFO, CfgRetryInterval (ss_retry_interval_seconds settings))]) w"

definition runnable :: "world \<Rightarrow> nat \<Rightarrow> ProcessType \<Rightarrow> download_task \<Rightarrow> bool" where
  \<comment> \<open>the filter of \<open>process_strm_tasks_with_retry\<close> and of
      \<open>process_resource_download_tasks_with_retry\<close>\<close>
  "runnable w task_id kind d =
     (d_task_id d = task_id \<and> d_process_type d = kind \<and>
      (d_status d = PENDING \<or>
       (d_status d = RETRY \<and>
        (case d_retry_after d of None \<Rightarrow> True | Some t \<Rightarrow> t \<le> datetime_now w))))"

definition count_done :: "world \<Rightarrow> nat list \<Rightarrow> nat" where
  \<comment> \<open>\<open>len([dt for dt in tasks if dt.status in [COMPLETED, FAILED]])\<close> over the processed
      objects\<close>
  "count_done w ids =
     length (filter (\<lambda>d. d_id d \<in> set ids \<and> (d_status d = COMPLETED \<or> d_status d = FAILED))
               (w_download_tasks w))"

definition process_strm_tasks_with_retry ::
  "nat \<Rightarrow> media_server \<Rightarrow> string \<Rightarrow> nat option \<Rightarrow> system_settings \<Rightarrow> nat \<Rightarrow> world
     \<Rightarrow> py_exception option \<times> world" where
  \<comment> \<open>the sixth argument is \<open>len(files)\<close>, the only use of \<open>files\<close>\<close>
  "process_strm_tasks_with_retry task_id server output_dir task settings n_files w =
     (if self_task_canceled task w then (None, w)
      else
        (let strm_tasks = map d_id (filter (runnable w task_id STRM_GENERATION)
                                      (w_download_tasks w))
         in if strm_tasks \<noteq> []
            then
              (let w1 = log_if_task task INFO (PhaseStart STRM_GENERATION (length strm_tasks)) w;
                   strm_processor =
                     \<lparr> sd_base_url = ms_base_url server, sd_output_dir = output_dir,
                       sd_enable_path_replacement = ss_enable_path_replacement settings,
                       sd_replacement_path = ss_replacement_path settings,
                       sd_max_threads = ss_download_threads settings,
                       sd_task = task, sd_task_list = strm_tasks,
                       sd_task_id = Some task_id, sd_retry_interval_seconds = 30 \<rparr>;
                   r = genstrm strm_processor w1
               in case fst r of
                    Some e \<Rightarrow> r
                  | None \<Rightarrow>
                      (None, log_task_progress task (count_done (snd r) strm_tasks) n_files
                               (StagePhaseDone STRM_GENERATION) (snd r)))
            else (None, log_if_task task INFO (PhaseNothingToDo STRM_GENERATION) w)))"

definition process_resource_download_tasks_with_retry ::
  "nat \<Rightarrow> media_server \<Rightarrow> string \<Rightarrow> nat option \<Rightarrow> system_settings \<Rightarrow> nat \<Rightarrow> world
     \<Rightarrow> py_exception option \<times> world" where
  "process_resource_download_tasks_with_retry task_id download_server output_dir task settings
       n_files w =
     (if self_task_canceled task w then (None, w)
      else
        (let download_tasks = map d_id (filter (runnable w task_id RESOURCE_DOWNLOAD)
                                          (w_download_tasks w))
         in if download_tasks \<noteq> []
            then
              (let w1 = log_if_task task INFO
                          (PhaseStart RESOURCE_DOWNLOAD (length download_tasks)) w;
                   resource_downloader =
                     \<lparr> rd_base_url = ms_base_url download_server, rd_output_dir = output_dir,
                       rd_threads = ss_download_threads settings,
                       rd_task_list = download_tasks, rd_task = task,
                       rd_task_id = Some task_id, rd_retry_interval_seconds = 30 \<rparr>;
                   r = start_download resource_downloader w1
               in case fst r of
                    Some e \<Rightarrow> r
                  | None \<Rightarrow>
                      (None, log_task_progress task (count_done (snd r) download_tasks) n_files
                               (StagePhaseDone RESOURCE_DOWNLOAD) (snd r)))
            else (None, log_if_task task INFO (PhaseNothingToDo RESOURCE_DOWNLOAD) w)))"

definition count_status :: "ProcessType \<Rightarrow> DownloadTaskStatus \<Rightarrow> download_task list \<Rightarrow> nat" where
  \<comment> \<open>\<open>sum(1 for dt in all if dt.process_type == kind and dt.status == st)\<close>\<close>
  "count_status kind st ds =
     length (filter (\<lambda>d. d_process_type d = kind \<and> d_status d = st) ds)"

definition decide_task :: "strm_task \<Rightarrow> download_task list \<Rightarrow> time \<Rightarrow> nat \<Rightarrow> strm_task" where
  \<comment> \<open>the assignments to the object in the branch "not canceled" of the final block:
      counters from the Sub-Task rows, then FAILED when a generation or a download failed,
      COMPLETED in every other case\<close>
  "decide_task task all_download_tasks end_time elapsed_time =
     (let strm_success = count_status STRM_GENERATION COMPLETED all_download_tasks;
          strm_failed = count_status STRM_GENERATION FAILED all_download_tasks;
          resource_success = count_status RESOURCE_DOWNLOAD COMPLETED all_download_tasks;
          resource_failed = count_status RESOURCE_DOWNLOAD FAILED all_download_tasks
      in task \<lparr> t_end_time := Some end_time,
                t_processed_files := strm_success + strm_failed + resource_success
                                       + resource_failed,
                t_success_files := strm_success + resource_success,
                t_failed_files := strm_failed + resource_failed,
                t_download_duration := Some elapsed_time,
                t_status := (if strm_failed > 0 \<or> resource_failed > 0 then TASK_FAILED
                             else TASK_COMPLETED) \<rparr>)"

definition finish_task :: "nat \<Rightarrow> time \<Rightarrow> nat \<Rightarrow> world \<Rightarrow> world" where
  \<comment> \<open>the final block of \<open>process_directory_tree\<close> (\<open>if task:\<close> ... \<open>await task.save()\<close>)\<close>
  "finish_task tid end_time elapsed_time w =
     (case get_task w tid of
        None \<Rightarrow> w
      | Some task \<Rightarrow>
          if t_status task = TASK_CANCELED
          then
            (let r = obj_log (task \<lparr> t_end_time := Some end_time,
                                      t_download_duration := Some elapsed_time \<rparr>)
                       INFO CanceledStop w
             in save_task (fst r) (snd r))
          else
            (let all_download_tasks = filter (\<lambda>d. d_task_id d = t_id task) (w_download_tasks w);
                 strm_tasks = filter (\<lambda>d. d_process_type d = STRM_GENERATION) all_download_tasks;
                 resource_tasks =
                   filter (\<lambda>d. d_process_type d = RESOURCE_DOWNLOAD) all_download_tasks;
                 strm_success = count_status STRM_GENERATION COMPLETED all_download_tasks;
                 strm_failed = count_status STRM_GENERATION FAILED all_download_tasks;
                 resource_success = count_status RESOURCE_DOWNLOAD COMPLETED all_download_tasks;
                 resource_failed = count_status RESOURCE_DOWNLOAD FAILED all_download_tasks;
                 task1 = decide_task task all_download_tasks end_time elapsed_time;
                 r1 = (if strm_failed > 0 \<or> resource_failed > 0
                       then obj_log task1 ERROR (TaskFailedMsg strm_failed resource_failed) w
                       else obj_log task1 INFO TaskSucceededMsg w);
                 r2 = obj_log_task_progress (fst r1)
                        (strm_success + strm_failed + resource_success + resource_failed)
                        (length all_download_tasks) StageFinished (snd r1);
                 r3 = obj_logs (fst r2)
                        ([(INFO, SummaryRule), (INFO, SummaryHeader), (INFO, SummaryElapsed),
                          (INFO, SummaryTotal (length all_download_tasks)),
                          (INFO, SummarySuccess (strm_success + resource_success)),
                          (INFO, SummaryFailed (strm_failed + resource_failed))] @
                         (if strm_tasks \<noteq> [] then [(INFO, SummaryStrm strm_success strm_failed)]
                          else []) @
                         (if resource_tasks \<noteq> []
                          then [(INFO, SummaryResource resource_success resource_failed)]
                          else []) @
                         (if length all_download_tasks > 0 then [(INFO, SummaryRate)] else []) @
                         [(INFO, SummaryRule)]) (snd r2)
             in save_task (fst r3) (snd r3)))"

definition process_directory_tree_try ::
  "nat \<Rightarrow> nat \<Rightarrow> string \<Rightarrow> nat option \<Rightarrow> nat option \<Rightarrow> world \<Rightarrow> py_exception option \<times> world"
  where
  \<comment> \<open>the \<open>try\<close> block of \<open>process_directory_tree(server_id, files, output_dir, task_id,
      download_server_id)\<close>; the second argument is \<open>len(files)\<close>. \<open>Some e\<close>: the exception
      raised, with the state it leaves.\<close>
  "process_directory_tree_try server_id n_files output_dir task_id download_server_id w =
     (case get_server w server_id of
        None \<Rightarrow> (Some ValueError, w)
      | Some server \<Rightarrow>
          (case (case download_server_id of
                   None \<Rightarrow> Some server
                 | Some k \<Rightarrow> if k = 0 then Some server else get_server w k) of
             None \<Rightarrow> (Some ValueError, w)
           | Some download_server \<Rightarrow>
               if truthy_id task_id \<and> (case task_id of None \<Rightarrow> True
                                         | Some tid \<Rightarrow> get_task w tid = None)
               then (Some ValueError, w)
               else
                 (case w_settings w of
                    None \<Rightarrow> (Some TypeError, w)
                  | Some settings \<Rightarrow>
                      (case (if truthy_id task_id then task_id else None) of
                         None \<Rightarrow> (None, w)
                       | Some tid \<Rightarrow>
                           (let w1 = log_task_progress (Some tid) 0 n_files StageStart
                                       (log_processor_settings_to_task tid settings n_files w)
                            in if task_is_canceled w1 tid then (None, w1)
                               else
                                 (let r3 = process_strm_tasks_with_retry tid server output_dir
                                             (Some tid) settings n_files
                                             (update_task_heartbeat tid w1)
                                  in case fst r3 of
                                       Some e \<Rightarrow> r3
                                     | None \<Rightarrow>
                                         if task_is_canceled (snd r3) tid then (None, snd r3)
                                         else
                                           (let r5 = process_resource_download_tasks_with_retry
                                                       tid download_server output_dir (Some tid)
                                                       settings n_files
                                                       (update_task_heartbeat tid (snd r3))
                                            in case fst r5 of
                                                 Some e \<Rightarrow> r5
                                               | None \<Rightarrow>
                                                   (None, finish_task tid
                                                            (datetime_now (snd r5)) 0
                                                            (snd r5)))))))))"

definition process_directory_tree ::
  "nat \<Rightarrow> nat \<Rightarrow> string \<Rightarrow> nat option \<Rightarrow> nat option \<Rightarrow> world \<Rightarrow> py_exception option \<times> world"
  where
  \<comment> \<open>with the \<open>except\<close> clause: the Task is marked FAILED and the exception raised again\<close>
  "process_directory_tree server_id n_files output_dir task_id download_server_id w =
     (let r = process_directory_tree_try server_id n_files output_dir task_id
                download_server_id w
      in case fst r of
           None \<Rightarrow> r
         | Some e \<Rightarrow>
             (Some e,
              (case (if truthy_id task_id then task_id else None) of
                 None \<Rightarrow> snd r
               | Some tid \<Rightarrow>
                   (case get_task (snd r) tid of
                      None \<Rightarrow> snd r
                    | Some task \<Rightarrow>
                        (let q = obj_log (task \<lparr> t_status := TASK_FAILED \<rparr>) ERROR
                                   (ProcessorError e) (snd r)
                         in save_task (fst q) (snd q))))))"


section \<open>Cancel, continue and delete (\<open>task_controller.py\<close>)\<close>

record user =
  u_id :: nat
  u_user_name :: string

datatype http_error = HTTPException nat
  \<comment> \<open>the \<open>code\<close> of the exception raised\<close>

definition new_download_task :: "nat \<Rightarrow> nat \<Rightarrow> string \<Rightarrow> FileType \<Rightarrow> int option \<Rightarrow> int
                                 \<Rightarrow> download_task" where
  \<comment> \<open>\<open>DownloadTask.create(...)\<close> in \<open>start_strm_task\<close>, the one place that creates Sub-Task
      rows: the row with id \<open>k\<close> for one entry of the file list; the columns it does not
      name take their defaults\<close>
  "new_download_task k task_id file_path file_type file_size retry_count =
     \<lparr> d_id = k, d_task_id = task_id, d_source_path = file_path, d_target_path = None,
       d_file_type = file_type,
       d_process_type = (if file_type = VIDEO then STRM_GENERATION else RESOURCE_DOWNLOAD),
       d_status = PENDING, d_attempt_count = 0, d_max_attempts = retry_count,
       d_file_size = file_size, d_download_started = None, d_download_completed = None,
       d_worker_id = None, d_error_message = None, d_retry_after = None \<rparr>"

definition columns_unassigned :: "download_task \<Rightarrow> bool" where
  \<comment> \<open>worker id and the two download timestamps hold nothing: no statement of the code
      assigns them a value other than \<open>None\<close>\<close>
  "columns_unassigned d =
     (d_worker_id d = None \<and> d_download_started d = None \<and> d_download_completed d = None)"

definition rows_unassigned :: "world \<Rightarrow> bool" where
  "rows_unassigned w = list_all columns_unassigned (w_download_tasks w)"

definition cancel_task :: "nat \<Rightarrow> user \<Rightarrow> world \<Rightarrow> (http_error + nat) \<times> world" where
  \<comment> \<open>\<open>cancel_task(task_id, user)\<close>: the error raised or \<open>canceled_downloads\<close>, and the
      state left\<close>
  "cancel_task task_id usr w =
     (case get_task w task_id of
        None \<Rightarrow> (Inl (HTTPException 404), w)
      | Some task \<Rightarrow>
          if t_created_by_id task \<noteq> u_id usr then (Inl (HTTPException 403), w)
          else if t_status task \<notin> {TASK_PENDING, TASK_RUNNING} then (Inl (HTTPException 400), w)
          else
            (let r = obj_log (task \<lparr> t_status := TASK_CANCELED,
                                      t_end_time := Some (datetime_now w) \<rparr>)
                       INFO UserCanceled w;
                 w1 = save_task (fst r) (snd r);
                 pending_downloads =
                   filter (\<lambda>d. d_task_id d = t_id task \<and>
                                d_status d \<in> {PENDING, DOWNLOADING, RETRY})
                     (w_download_tasks w1)
             in (Inr (length pending_downloads),
                 fold (\<lambda>dl_task. save_download_task
                                    (dl_task \<lparr> d_status := CANCELED,
                                               d_error_message := Some CanceledByUser \<rparr>))
                   pending_downloads w1)))"

datatype continue_count = Kept | Skipped | Reset | Untouched
  \<comment> \<open>which of \<open>completed_count\<close>, \<open>skipped_count\<close>, \<open>reset_count\<close> the loop increments\<close>

definition target_exists :: "world \<Rightarrow> download_task \<Rightarrow> bool" where
  \<comment> \<open>\<open>dl_task.target_path and os.path.exists(dl_task.target_path)\<close>\<close>
  "target_exists w dl_task =
     (case d_target_path dl_task of None \<Rightarrow> False | Some p \<Rightarrow> p \<noteq> [] \<and> path_exists w p)"

definition file_is_complete :: "world \<Rightarrow> download_task \<Rightarrow> bool" where
  \<comment> \<open>the integrity test of \<open>continue_task\<close> for a canceled Sub-Task whose target exists\<close>
  "file_is_complete w dl_task =
     (if d_process_type dl_task = RESOURCE_DOWNLOAD \<and> d_file_size dl_task \<noteq> None \<and>
         d_file_size dl_task \<noteq> Some 0
      then (case d_target_path dl_task of
              None \<Rightarrow> False
            | Some p \<Rightarrow> (case getsize w p of
                           None \<Rightarrow> False
                         | Some actual_size \<Rightarrow> Some (int actual_size) = d_file_size dl_task))
      else if d_process_type dl_task = STRM_GENERATION then True
      else False)"

definition continue_download_task :: "world \<Rightarrow> download_task \<Rightarrow> download_task \<times> continue_count"
  where
  \<comment> \<open>the body of \<open>for dl_task in all_downloads:\<close> in \<open>continue_task\<close>\<close>
  "continue_download_task w dl_task =
     (if d_status dl_task = COMPLETED
      then (if target_exists w dl_task then (dl_task, Kept)
            else (dl_task \<lparr> d_status := PENDING, d_error_message := Some FileLost \<rparr>, Reset))
      else if d_status dl_task = CANCELED
      then (if target_exists w dl_task
            then (if file_is_complete w dl_task
                  then (dl_task \<lparr> d_status := COMPLETED, d_error_message := None \<rparr>, Skipped)
                  else (dl_task \<lparr> d_status := PENDING, d_error_message := None \<rparr>, Reset))
            else (dl_task \<lparr> d_status := PENDING, d_error_message := None \<rparr>, Reset))
      else if d_status dl_task \<in> {FAILED, RETRY}
      then (dl_task \<lparr> d_status := PENDING, d_error_message := None, d_attempt_count := 0 \<rparr>,
            Reset)
      else (dl_task, Untouched))"

record continue_result =
  reset_downloads :: nat
  skipped_downloads :: nat
  completed_downloads :: nat

definition continue_failed :: "nat \<Rightarrow> world \<Rightarrow> (http_error + continue_result) \<times> world" where
  \<comment> \<open>the clause \<open>except Exception\<close> of \<open>continue_task\<close>: back to canceled, error 500\<close>
  "continue_failed task_id w =
     (Inl (HTTPException 500),
      (case get_task w task_id of
         None \<Rightarrow> w
       | Some task \<Rightarrow>
           (let r = obj_log (task \<lparr> t_status := TASK_CANCELED \<rparr>) ERROR ContinueError w
            in save_task (fst r) (snd r))))"

definition continue_task :: "nat \<Rightarrow> user \<Rightarrow> nat \<Rightarrow> world \<Rightarrow> (http_error + continue_result) \<times> world"
  where
  \<comment> \<open>\<open>continue_task(task_id, user)\<close>; the third argument is the length of the file list
      that \<open>get_parse_result\<close> (the upload controller) gives for the task's record\<close>
  "continue_task task_id usr n_files w =
     (case get_task w task_id of
        None \<Rightarrow> (Inl (HTTPException 404), w)
      | Some task \<Rightarrow>
          if t_created_by_id task \<noteq> u_id usr then (Inl (HTTPException 403), w)
          else if t_status task \<noteq> TASK_CANCELED then (Inl (HTTPException 400), w)
          else
            (case get_server w (t_server_id task) of
               None \<Rightarrow> continue_failed task_id w
             | Some media_server \<Rightarrow>
                 (let download_server =
                        (case t_download_server_id task of
                           None \<Rightarrow> media_server
                         | Some k \<Rightarrow> (case get_server w k of
                                        None \<Rightarrow> media_server | Some sv \<Rightarrow> sv));
                      r = obj_log (task \<lparr> t_status := TASK_RUNNING,
                                           t_start_time := Some (datetime_now w),
                                           t_end_time := None \<rparr>)
                            INFO (UserContinued (u_user_name usr)) w;
                      w1 = save_task (fst r) (snd r);
                      all_downloads = filter (\<lambda>d. d_task_id d = t_id task) (w_download_tasks w1);
                      outcomes = map (continue_download_task w1) all_downloads;
                      w2 = fold (\<lambda>oc. if snd oc = Kept \<or> snd oc = Untouched then id
                                        else save_download_task (fst oc)) outcomes w1;
                      p = process_directory_tree (ms_id media_server) n_files
                            (t_output_dir task) (Some (t_id task))
                            (Some (ms_id download_server)) w2
                  in case fst p of
                       Some e \<Rightarrow> continue_failed task_id (snd p)
                     | None \<Rightarrow>
                         (Inr \<lparr> reset_downloads = length (filter (\<lambda>oc. snd oc = Reset) outcomes),
                                skipped_downloads =
                                  length (filter (\<lambda>oc. snd oc = Skipped) outcomes),
                                completed_downloads =
                                  length (filter (\<lambda>oc. snd oc = Kept) outcomes) \<rparr>,
                          snd p))))"

definition is_under :: "string \<Rightarrow> string \<Rightarrow> bool" where
  \<comment> \<open>\<open>p\<close> is the directory \<open>dir\<close> or lies below it\<close>
  "is_under dir p = (p = dir \<or> startswith p (rstrip_chars CHR ''/'' dir @ ''/''))"

definition rmtree :: "string \<Rightarrow> world \<Rightarrow> world option" where
  \<comment> \<open>\<open>shutil.rmtree\<close>; \<open>None\<close> when it raises. The tree is then taken as left in place:
      a removal that stops half-way, with part of the tree gone, is not represented.\<close>
  "rmtree dir w =
     (if dir \<in> set (w_undeletable w) then None
      else Some (w \<lparr> w_files := filter (\<lambda>f. \<not> is_under dir (fst f)) (w_files w),
                      w_dirs := filter (\<lambda>d. \<not> is_under dir d) (w_dirs w) \<rparr>))"

record delete_result =
  directory_deleted :: bool
  directory_left :: bool   \<comment> \<open>the message says that clearing the directory failed\<close>

definition delete_task :: "nat \<Rightarrow> user \<Rightarrow> world \<Rightarrow> (http_error + delete_result) \<times> world" where
  \<comment> \<open>\<open>delete_task(task_id, user)\<close>\<close>
  "delete_task task_id usr w =
     (case get_task w task_id of
        None \<Rightarrow> (Inl (HTTPException 404), w)
      | Some task \<Rightarrow>
          if t_created_by_id task \<noteq> u_id usr then (Inl (HTTPException 403), w)
          else
            (let output_dir = path_str (Path (t_output_dir task));
                 removed = (if path_exists w output_dir then rmtree output_dir w else None);
                 w1 = (case removed of None \<Rightarrow> w | Some w' \<Rightarrow> w');
                 w2 = w1 \<lparr> w_download_tasks :=
                             filter (\<lambda>d. d_task_id d \<noteq> task_id) (w_download_tasks w1) \<rparr>;
                 w3 = w2 \<lparr> w_strm_files :=
                             filter (\<lambda>f. sf_task_id f \<noteq> task_id) (w_strm_files w2) \<rparr>;
                 w4 = w3 \<lparr> w_tasks := filter (\<lambda>t. t_id t \<noteq> t_id task) (w_tasks w3) \<rparr>
             in (Inr \<lparr> directory_deleted = (removed \<noteq> None),
                       directory_left = (removed = None \<and> path_exists w4 output_dir) \<rparr>,
                 w4)))"


section \<open>Settings update (\<open>system_controller.py\<close>)\<close>

text \<open>
  The dictionary \<open>data\<close>, as the API layer builds it from \<open>SystemSettingsUpdate\<close> with
  \<open>exclude_none\<close>: a key is present with a value, or absent (\<open>None\<close>). The scalar columns
  for recovery and logging are copied like the ones kept here and are left out.
\<close>

record settings_update =
  su_default_server_id :: "nat option"
  su_default_download_server_id :: "nat option"
  su_default_media_server_id :: "nat option"
  su_enable_path_replacement :: "bool option"
  su_replacement_path :: "string option"
  su_download_threads :: "nat option"
  su_output_directory :: "string option"
  su_video_file_types :: "string option"
  su_audio_file_types :: "string option"
  su_image_file_types :: "string option"
  su_subtitle_file_types :: "string option"
  su_metadata_file_types :: "string option"
  su_failure_retry_count :: "int option"
  su_retry_interval_seconds :: "int option"
  su_logs_directory :: "string option"

datatype settings_error =
    ServerNotFound nat | DuplicateExtensions | BadLogsDirectory
  | IntegrityError   \<comment> \<open>\<open>save()\<close> or \<open>create()\<close> with a server id that no row has\<close>

definition normalized_extensions :: "string \<Rightarrow> string list" where
  \<comment> \<open>the extensions of one field as \<open>_validate_file_extensions\<close> compares them: stripped,
      with a leading dot, lower case\<close>
  "normalized_extensions field =
     map (\<lambda>ext. lower (if startswith ext ''.'' then ext else ''.'' @ ext))
       (map strip (filter (\<lambda>ext. strip ext \<noteq> []) (split '','' field)))"

record ext_check =
  type_extensions :: "string list"                 \<comment> \<open>\<open>type_extensions[file_type]\<close>\<close>
  extension_to_type :: "(string \<times> FileType) list"
  internal_duplicates :: nat
  cross_type_duplicates :: nat

definition check_extension :: "FileType \<Rightarrow> string \<Rightarrow> ext_check \<Rightarrow> ext_check" where
  \<comment> \<open>the body of \<open>for ext in extensions:\<close>\<close>
  "check_extension file_type ext_lower c =
     (let c1 = (if ext_lower \<in> set (type_extensions c)
                then c \<lparr> internal_duplicates := internal_duplicates c + 1 \<rparr>
                else c \<lparr> type_extensions := type_extensions c @ [ext_lower] \<rparr>)
      in case map_of (extension_to_type c1) ext_lower of
           Some existing_type \<Rightarrow>
             if existing_type \<noteq> file_type
             then c1 \<lparr> cross_type_duplicates := cross_type_duplicates c1 + 1 \<rparr>
             else c1
         | None \<Rightarrow> c1 \<lparr> extension_to_type := extension_to_type c1 @ [(ext_lower, file_type)] \<rparr>)"

definition check_field :: "FileType \<Rightarrow> string option \<Rightarrow> ext_check \<Rightarrow> ext_check" where
  \<comment> \<open>one round of \<open>for file_type, field_name in file_type_fields.items():\<close>\<close>
  "check_field file_type field c =
     (case field of
        None \<Rightarrow> c
      | Some v \<Rightarrow>
          if v = [] then c
          else fold (check_extension file_type) (normalized_extensions v)
                 (c \<lparr> type_extensions := [] \<rparr>))"

definition validate_file_extensions :: "settings_update \<Rightarrow> bool" where
  \<comment> \<open>\<open>_validate_file_extensions(data)\<close>: \<open>True\<close> when it raises nothing\<close>
  "validate_file_extensions data =
     (let c = check_field METADATA (su_metadata_file_types data)
                (check_field SUBTITLE (su_subtitle_file_types data)
                  (check_field IMAGE (su_image_file_types data)
                    (check_field AUDIO (su_audio_file_types data)
                      (check_field VIDEO (su_video_file_types data)
                         \<lparr> type_extensions = [], extension_to_type = [],
                           internal_duplicates = 0, cross_type_duplicates = 0 \<rparr>))))
      in internal_duplicates c = 0 \<and> cross_type_duplicates c = 0)"

definition validate_logs_directory :: "world \<Rightarrow> string \<Rightarrow> bool" where
  \<comment> \<open>\<open>_validate_logs_directory\<close>: an empty value passes; otherwise the directory must
      accept a probe file. The directory it creates on the way and the base directory of
      a relative path are not represented.\<close>
  "validate_logs_directory w logs_directory =
     (strip logs_directory = [] \<or> strip logs_directory \<notin> set (w_unwritable w))"

definition server_id_missing :: "world \<Rightarrow> nat option \<Rightarrow> bool" where
  \<comment> \<open>\<open>if data.get(field):\<close> the server must exist\<close>
  "server_id_missing w k =
     (case k of None \<Rightarrow> False | Some n \<Rightarrow> n \<noteq> 0 \<and> get_server w n = None)"

definition foreign_key_violated :: "world \<Rightarrow> nat option \<Rightarrow> bool" where
  \<comment> \<open>the foreign key of a server column when the row is written: a server id that is
      given has a row. After the test above only the id 0 can fail it.\<close>
  "foreign_key_violated w k = (case k of None \<Rightarrow> False | Some n \<Rightarrow> get_server w n = None)"

definition or_old :: "'a option \<Rightarrow> 'a \<Rightarrow> 'a" where
  \<comment> \<open>\<open>setattr(settings, field, value)\<close> for a key of \<open>data\<close>, the old value otherwise\<close>
  "or_old new old = (case new of None \<Rightarrow> old | Some v \<Rightarrow> v)"

definition or_old_opt :: "'a option \<Rightarrow> 'a option \<Rightarrow> 'a option" where
  \<comment> \<open>the same for a nullable column\<close>
  "or_old_opt new old = (case new of None \<Rightarrow> old | Some v \<Rightarrow> Some v)"

definition field_changed :: "string option \<Rightarrow> string option \<Rightarrow> bool" where
  \<comment> \<open>\<open>field in data and getattr(settings, field) != data[field]\<close>\<close>
  "field_changed new old = (case new of None \<Rightarrow> False | Some v \<Rightarrow> old \<noteq> Some v)"

definition need_version_update :: "settings_update \<Rightarrow> system_settings \<Rightarrow> bool" where
  "need_version_update data settings =
     (field_changed (su_video_file_types data) (ss_video_file_types settings) \<or>
      field_changed (su_audio_file_types data) (ss_audio_file_types settings) \<or>
      field_changed (su_image_file_types data) (ss_image_file_types settings) \<or>
      field_changed (su_subtitle_file_types data) (ss_subtitle_file_types settings) \<or>
      field_changed (su_metadata_file_types data) (ss_metadata_file_types settings))"

definition apply_update :: "settings_update \<Rightarrow> system_settings \<Rightarrow> system_settings" where
  \<comment> \<open>\<open>for field, value in data.items(): setattr(settings, field, value)\<close>\<close>
  "apply_update data settings =
     settings
       \<lparr> ss_default_download_server_id :=
           or_old_opt (su_default_download_server_id data)
             (ss_default_download_server_id settings),
         ss_default_media_server_id :=
           or_old_opt (su_default_media_server_id data) (ss_default_media_server_id settings),
         ss_enable_path_replacement :=
           or_old (su_enable_path_replacement data) (ss_enable_path_replacement settings),
         ss_replacement_path :=
           or_old_opt (su_replacement_path data) (ss_replacement_path settings),
         ss_download_threads :=
           or_old (su_download_threads data) (ss_download_threads settings),
         ss_output_directory :=
           or_old_opt (su_output_directory data) (ss_output_directory settings),
         ss_video_file_types :=
           or_old_opt (su_video_file_types data) (ss_video_file_types settings),
         ss_audio_file_types :=
           or_old_opt (su_audio_file_types data) (ss_audio_file_types settings),
         ss_image_file_types :=
           or_old_opt (su_image_file_types data) (ss_image_file_types settings),
         ss_subtitle_file_types :=
           or_old_opt (su_subtitle_file_types data) (ss_subtitle_file_types settings),
         ss_metadata_file_types :=
           or_old_opt (su_metadata_file_types data) (ss_metadata_file_types settings),
         ss_failure_retry_count :=
           or_old (su_failure_retry_count data) (ss_failure_retry_count settings),
         ss_retry_interval_seconds :=
           or_old (su_retry_interval_seconds data) (ss_retry_interval_seconds settings),
         ss_logs_directory :=
           or_old_opt (su_logs_directory data) (ss_logs_directory settings) \<rparr>"

definition new_settings :: system_settings where
  \<comment> \<open>\<open>SystemSettings()\<close>: the defaults of the columns\<close>
  "new_settings =
     \<lparr> ss_default_download_server_id = None, ss_default_media_server_id = None,
       ss_enable_path_replacement = True, ss_replacement_path = Some ''/nas'',
       ss_download_threads = 1, ss_output_directory = None,
       ss_video_file_types = None, ss_audio_file_types = None, ss_image_file_types = None,
       ss_subtitle_file_types = None, ss_metadata_file_types = None,
       ss_failure_retry_count = 3, ss_retry_interval_seconds = 30,
       ss_logs_directory = None, ss_settings_version = 1, ss_updated_by_id = None \<rparr>"

definition create_or_update_settings :: "settings_update \<Rightarrow> nat option \<Rightarrow> world
                                         \<Rightarrow> settings_error + world" where
  \<comment> \<open>\<open>SystemSettingsController.create_or_update_settings(data)\<close> with the user id of the
      request context; the re-configuration of the loggers is not represented. A server
      id 0 passes \<open>if data.get(field):\<close> unchecked; \<open>save()\<close> or \<open>create()\<close> then raises
      on the foreign key, and nothing has been written.\<close>
  "create_or_update_settings data user_id w =
     (if server_id_missing w (su_default_download_server_id data)
      then Inl (ServerNotFound (case su_default_download_server_id data of
                                  None \<Rightarrow> 0 | Some n \<Rightarrow> n))
      else if server_id_missing w (su_default_media_server_id data)
      then Inl (ServerNotFound (case su_default_media_server_id data of
                                  None \<Rightarrow> 0 | Some n \<Rightarrow> n))
      else if \<not> validate_file_extensions data then Inl DuplicateExtensions
      else if (case su_logs_directory data of
                 None \<Rightarrow> False | Some d \<Rightarrow> \<not> validate_logs_directory w d)
      then Inl BadLogsDirectory
      else if foreign_key_violated w (su_default_download_server_id data) \<or>
              foreign_key_violated w (su_default_media_server_id data)
      then Inl IntegrityError
      else
        (case w_settings w of
           Some settings \<Rightarrow>
             (let updated = apply_update data settings;
                  versioned =
                    (if need_version_update data settings
                     then updated \<lparr> ss_settings_version := ss_settings_version updated + 1 \<rparr>
                     else updated)
              in Inr (w \<lparr> w_settings := Some (versioned \<lparr> ss_updated_by_id := user_id \<rparr>) \<rparr>))
         | None \<Rightarrow>
             Inr (w \<lparr> w_settings :=
                        Some ((apply_update data new_settings)
                                \<lparr> ss_settings_version := 1, ss_updated_by_id := user_id \<rparr>) \<rparr>)))"

definition file_type_lists :: "system_settings \<Rightarrow> string option \<times> string option \<times> string option
                                                \<times> string option \<times> string option" where
  \<comment> \<open>the five extension lists of a settings row, as stored\<close>
  "file_type_lists st =
     (ss_video_file_types st, ss_audio_file_types st, ss_image_file_types st,
      ss_subtitle_file_types st, ss_metadata_file_types st)"

section \<open>Scenario states\<close>

text \<open>
  One Task (id 1, owner 7, output directory \<open>/o\<close>) on the media server \<open>http://m\<close>, at
  clock 100, with one video Sub-Task \<open>/movies/a.mkv\<close>; path rewriting is on, prefix \<open>nas2\<close>.
  The variants below change one thing each.
\<close>

definition scenario_settings_row :: system_settings where
  "scenario_settings_row =
     new_settings \<lparr> ss_replacement_path := Some ''nas2'', ss_video_file_types := Some ''mkv'' \<rparr>"

definition scenario_task :: strm_task where
  "scenario_task =
     \<lparr> t_id = 1, t_status = TASK_RUNNING, t_server_id = 1, t_download_server_id = None,
       t_output_dir = ''/o'', t_total_files = 1, t_processed_files = 0, t_success_files = 0,
       t_failed_files = 0, t_start_time = Some 100, t_end_time = None, t_created_by_id = 7,
       t_log_content = [], t_download_duration = None, t_threads = 1,
       t_last_heartbeat = None \<rparr>"

definition scenario_subtask :: download_task where
  "scenario_subtask =
     \<lparr> d_id = 1, d_task_id = 1, d_source_path = ''/movies/a.mkv'', d_target_path = None,
       d_file_type = VIDEO, d_process_type = STRM_GENERATION, d_status = PENDING,
       d_attempt_count = 0, d_max_attempts = 3, d_file_size = Some 0,
       d_download_started = None, d_download_completed = None, d_worker_id = None,
       d_error_message = None, d_retry_after = None \<rparr>"

definition scenario_world :: world where
  "scenario_world =
     \<lparr> w_clock = 100, w_heartbeat_attr = False, w_settings = Some scenario_settings_row,
       w_servers = [\<lparr> ms_id = 1, ms_base_url = ''http://m'' \<rparr>,
                    \<lparr> ms_id = 2, ms_base_url = ''http://d'' \<rparr>],
       w_tasks = [scenario_task], w_download_tasks = [scenario_subtask], w_strm_files = [],
       w_files = [], w_dirs = [], w_unwritable = [], w_undeletable = [], w_http = [] \<rparr>"

definition scenario_writer :: strm_downaload where
  "scenario_writer =
     \<lparr> sd_base_url = ''http://m'', sd_output_dir = ''/o'', sd_enable_path_replacement = True,
       sd_replacement_path = Some ''nas2'', sd_max_threads = 1, sd_task = Some 1,
       sd_task_list = [1], sd_task_id = Some 1, sd_retry_interval_seconds = 30 \<rparr>"

definition unwritable_world :: world where
  "unwritable_world = scenario_world \<lparr> w_unwritable := [''/o/movies/a.strm''] \<rparr>"

definition last_attempt_subtask :: download_task where
  "last_attempt_subtask =
     scenario_subtask \<lparr> d_attempt_count := 2 \<rparr>"

definition last_attempt_world :: world where
  "last_attempt_world = unwritable_world \<lparr> w_download_tasks := [last_attempt_subtask] \<rparr>"

definition scenario_resource_subtask :: download_task where
  "scenario_resource_subtask =
     \<lparr> d_id = 2, d_task_id = 1, d_source_path = ''/show/poster.jpg'', d_target_path = None,
       d_file_type = IMAGE, d_process_type = RESOURCE_DOWNLOAD, d_status = PENDING,
       d_attempt_count = 0, d_max_attempts = 3, d_file_size = Some 0,
       d_download_started = None, d_download_completed = None, d_worker_id = None,
       d_error_message = None, d_retry_after = None \<rparr>"

definition scenario_downloader :: ResourceDownloader where
  "scenario_downloader =
     \<lparr> rd_base_url = ''http://d'', rd_output_dir = ''/o'', rd_threads = 1, rd_task_list = [2],
       rd_task = Some 1, rd_task_id = Some 1, rd_retry_interval_seconds = 30 \<rparr>"

definition download_world :: world where
  "download_world =
     scenario_world \<lparr> w_download_tasks := [scenario_resource_subtask],
                      w_http := [(''http://d/show/poster.jpg'', Response 500 [])] \<rparr>"

definition slow_retry_world :: world where
  \<comment> \<open>the retry interval of the settings row is 45 seconds, not the 30 a processor is
      constructed with\<close>
  "slow_retry_world =
     unwritable_world
       \<lparr> w_settings := Some (scenario_settings_row \<lparr> ss_retry_interval_seconds := 45 \<rparr>) \<rparr>"

definition slow_retry_writer :: strm_downaload where
  \<comment> \<open>the writer as \<open>genstrm\<close> runs its batches in \<open>slow_retry_world\<close>\<close>
  "slow_retry_writer =
     scenario_writer \<lparr> sd_retry_interval_seconds := settings_retry_interval slow_retry_world \<rparr>"

definition last_attempt_resource_subtask :: download_task where
  "last_attempt_resource_subtask = scenario_resource_subtask \<lparr> d_attempt_count := 2 \<rparr>"

definition last_attempt_download_world :: world where
  "last_attempt_download_world =
     download_world
       \<lparr> w_settings := Some (scenario_settings_row \<lparr> ss_retry_interval_seconds := 45 \<rparr>),
         w_download_tasks := [last_attempt_resource_subtask] \<rparr>"

definition last_attempt_downloader :: ResourceDownloader where
  \<comment> \<open>the downloader as \<open>start_download\<close> runs its batches in
      \<open>last_attempt_download_world\<close>\<close>
  "last_attempt_downloader =
     scenario_downloader
       \<lparr> rd_retry_interval_seconds := settings_retry_interval last_attempt_download_world \<rparr>"

definition heartbeat_world :: world where
  "heartbeat_world = scenario_world \<lparr> w_heartbeat_attr := True \<rparr>"

definition scenario_user :: user where
  "scenario_user = \<lparr> u_id = 7, u_user_name = ''admin'' \<rparr>"

definition undeletable_world :: world where
  "undeletable_world =
     scenario_world \<lparr> w_files := [(''/o/movies/a.strm'', ''http://m/movies/a.mkv'')],
                      w_dirs := [''/o'', ''/o/movies''], w_undeletable := [''/o''],
                      w_strm_files := [\<lparr> sf_id = 1, sf_task_id = 1 \<rparr>] \<rparr>"

definition scenario_update :: settings_update where
  "scenario_update =
     \<lparr> su_default_server_id = None, su_default_download_server_id = None,
       su_default_media_server_id = Some 1, su_enable_path_replacement = None,
       su_replacement_path = None, su_download_threads = Some 4, su_output_directory = None,
       su_video_file_types = Some ''mkv,mp4'', su_audio_file_types = Some ''mp3'',
       su_image_file_types = None, su_subtitle_file_types = None,
       su_metadata_file_types = None, su_failure_retry_count = None,
       su_retry_interval_seconds = None, su_logs_directory = None \<rparr>"

definition scenario_update_same_lists :: settings_update where
  "scenario_update_same_lists =
     scenario_update \<lparr> su_video_file_types := Some ''mkv'', su_audio_file_types := None \<rparr>"

definition canceled_task :: strm_task where
  "canceled_task = scenario_task \<lparr> t_status := TASK_CANCELED, t_end_time := Some 90 \<rparr>"

definition kept_subtask :: download_task where
  "kept_subtask =
     scenario_subtask \<lparr> d_status := COMPLETED, d_target_path := Some ''/o/movies/a.strm'' \<rparr>"

definition lost_subtask :: download_task where
  "lost_subtask =
     scenario_subtask \<lparr> d_id := 2, d_source_path := ''/movies/gone.mkv'', d_status := COMPLETED,
                        d_target_path := Some ''/o/movies/gone.strm'' \<rparr>"

definition empty_strm_subtask :: download_task where
  "empty_strm_subtask =
     scenario_subtask \<lparr> d_id := 3, d_source_path := ''/movies/b.mkv'', d_status := CANCELED,
                        d_target_path := Some ''/o/movies/b.strm'',
                        d_error_message := Some CanceledByUser \<rparr>"

definition sized_subtask :: download_task where
  "sized_subtask =
     scenario_resource_subtask \<lparr> d_id := 4, d_status := CANCELED, d_file_size := Some 4,
                                 d_target_path := Some ''/o/show/poster.jpg'',
                                 d_error_message := Some CanceledByUser \<rparr>"

definition unsized_subtask :: download_task where
  "unsized_subtask =
     scenario_resource_subtask \<lparr> d_id := 5, d_source_path := ''/show/empty.nfo'',
                                 d_status := CANCELED, d_file_size := Some 0,
                                 d_target_path := Some ''/o/show/empty.nfo'',
                                 d_error_message := Some CanceledByUser \<rparr>"

definition failed_subtask :: download_task where
  "failed_subtask =
     scenario_resource_subtask \<lparr> d_id := 6, d_source_path := ''/show/x.srt'', d_status := FAILED,
                                 d_attempt_count := 3,
                                 d_error_message := Some (ExceptionText (HTTPStatusError 500)) \<rparr>"

definition canceled_world :: world where
  "canceled_world =
     scenario_world
       \<lparr> w_tasks := [canceled_task],
         w_download_tasks := [kept_subtask, lost_subtask, empty_strm_subtask, sized_subtask,
                              unsized_subtask, failed_subtask],
         w_files := [(''/o/movies/a.strm'', ''http://m/movies/a.mkv''),
                     (''/o/movies/b.strm'', []),
                     (''/o/show/poster.jpg'', ''JPEG''),
                     (''/o/show/empty.nfo'', [])],
         w_dirs := [''/o'', ''/o/movies'', ''/o/show''] \<rparr>"



section \<open>Properties of the tree parser\<close>

lemma load_extensions_empty:
  "load_extensions None = []" "load_extensions (Some []) = []"
  by (simp_all add: load_extensions_def split_def strip_def rstrip_def lstrip_def)

lemma or_default_load_empty:
  "raw = None \<or> raw = Some [] \<Longrightarrow> or_default (load_extensions raw) d = d"
  by (auto simp: load_extensions_empty or_default_def)

text \<open>
  C6 as stated: the blob \<open>|root\<close>, \<open>||movies\<close>, \<open>|||a.mkv\<close> parsed with video = \<open>mkv\<close>
  would give one entry with path \<open>/movies/a.mkv\<close>. The label of a line is what follows its
  last \<open>|-\<close>; these lines have none, so each label is the whole line, pipes included, and
  the path of the entry is \<open>/||movies/|||a.mkv\<close>.
\<close>

theorem parse_scenario_blob_path_counterexample:
  "map pf_path (parse_file (TreeParser_init (Some scenario_settings)) scenario_blob)
     = [''/||movies/|||a.mkv''] \<and>
   map pf_path (parse_file (TreeParser_init (Some scenario_settings)) scenario_blob)
     \<noteq> [''/movies/a.mkv'']"
  by code_simp

text \<open>
  C6, amended: parsing the blob \<open>|root\<close>, \<open>||movies\<close>, \<open>|||a.mkv\<close> under video = \<open>mkv\<close>
  yields exactly one entry, typed video, whose path is \<open>/||movies/|||a.mkv\<close>; the same
  tree written with the \<open>|-\<close> separator (\<open>|-root\<close>, \<open>||-movies\<close>, \<open>|||-a.mkv\<close>) yields
  exactly one entry, typed video, with path \<open>/movies/a.mkv\<close>.
\<close>

theorem parse_scenario_blob:
  "parse_file (TreeParser_init (Some scenario_settings)) scenario_blob =
     [\<lparr> pf_path = ''/||movies/|||a.mkv'', pf_file_type = VIDEO, pf_extension = ''mkv'',
        pf_file_name = ''|||a.mkv'', pf_directory = ''/||movies'' \<rparr>] \<and>
   parse_file (TreeParser_init (Some scenario_settings)) scenario_blob_sep =
     [\<lparr> pf_path = ''/movies/a.mkv'', pf_file_type = VIDEO, pf_extension = ''mkv'',
        pf_file_name = ''a.mkv'', pf_directory = ''/movies'' \<rparr>]"
  by code_simp

text \<open>
  C9: a category whose configured list is absent or the empty string gets the built-in
  list when the parser is constructed (also when no settings are given at all), so a
  file name whose extension is \<open>mkv\<close> is typed video when the configured video list is
  empty.
\<close>

theorem tree_parser_defaults:
  "((ps_video_file_types s = None \<or> ps_video_file_types s = Some []) \<longrightarrow>
      video_extensions (TreeParser_init (Some s)) = default_video_extensions) \<and>
   ((ps_audio_file_types s = None \<or> ps_audio_file_types s = Some []) \<longrightarrow>
      audio_extensions (TreeParser_init (Some s)) = default_audio_extensions) \<and>
   ((ps_image_file_types s = None \<or> ps_image_file_types s = Some []) \<longrightarrow>
      image_extensions (TreeParser_init (Some s)) = default_image_extensions) \<and>
   ((ps_subtitle_file_types s = None \<or> ps_subtitle_file_types s = Some []) \<longrightarrow>
      subtitle_extensions (TreeParser_init (Some s)) = default_subtitle_extensions) \<and>
   ((ps_metadata_file_types s = None \<or> ps_metadata_file_types s = Some []) \<longrightarrow>
      metadata_extensions (TreeParser_init (Some s)) = default_metadata_extensions) \<and>
   ((ps_video_file_types s = None \<or> ps_video_file_types s = Some []) \<and>
    lstrip_chars CHR ''.'' (lower (snd (splitext filename))) = ''mkv'' \<longrightarrow>
      get_file_type (TreeParser_init (Some s)) filename = (VIDEO, ''mkv'')) \<and>
   video_extensions (TreeParser_init None) = default_video_extensions \<and>
   audio_extensions (TreeParser_init None) = default_audio_extensions \<and>
   image_extensions (TreeParser_init None) = default_image_extensions \<and>
   subtitle_extensions (TreeParser_init None) = default_subtitle_extensions \<and>
   metadata_extensions (TreeParser_init None) = default_metadata_extensions"
proof -
  have v: "(ps_video_file_types s = None \<or> ps_video_file_types s = Some []) \<Longrightarrow>
      video_extensions (TreeParser_init (Some s)) = default_video_extensions"
    by (simp add: TreeParser_init_def load_settings_from_db_def or_default_load_empty Let_def)
  have a: "(ps_audio_file_types s = None \<or> ps_audio_file_types s = Some []) \<Longrightarrow>
      audio_extensions (TreeParser_init (Some s)) = default_audio_extensions"
    by (simp add: TreeParser_init_def load_settings_from_db_def or_default_load_empty Let_def)
  have i: "(ps_image_file_types s = None \<or> ps_image_file_types s = Some []) \<Longrightarrow>
      image_extensions (TreeParser_init (Some s)) = default_image_extensions"
    by (simp add: TreeParser_init_def load_settings_from_db_def or_default_load_empty Let_def)
  have t: "(ps_subtitle_file_types s = None \<or> ps_subtitle_file_types s = Some []) \<Longrightarrow>
      subtitle_extensions (TreeParser_init (Some s)) = default_subtitle_extensions"
    by (simp add: TreeParser_init_def load_settings_from_db_def or_default_load_empty Let_def)
  have m: "(ps_metadata_file_types s = None \<or> ps_metadata_file_types s = Some []) \<Longrightarrow>
      metadata_extensions (TreeParser_init (Some s)) = default_metadata_extensions"
    by (simp add: TreeParser_init_def load_settings_from_db_def or_default_load_empty Let_def)
  have f: "(ps_video_file_types s = None \<or> ps_video_file_types s = Some []) \<Longrightarrow>
      lstrip_chars CHR ''.'' (lower (snd (splitext filename))) = ''mkv'' \<Longrightarrow>
      get_file_type (TreeParser_init (Some s)) filename = (VIDEO, ''mkv'')"
    using v by (simp add: get_file_type_def default_video_extensions_def Let_def)
  have n: "video_extensions (TreeParser_init None) = default_video_extensions"
    "audio_extensions (TreeParser_init None) = default_audio_extensions"
    "image_extensions (TreeParser_init None) = default_image_extensions"
    "subtitle_extensions (TreeParser_init None) = default_subtitle_extensions"
    "metadata_extensions (TreeParser_init None) = default_metadata_extensions"
    by (simp_all add: TreeParser_init_def or_default_def)
  from v a i t m f n show ?thesis by blast
qed

theorem tree_parser_defaults_witness:
  "video_extensions (TreeParser_init (Some empty_lists_settings)) = default_video_extensions \<and>
   audio_extensions (TreeParser_init (Some empty_lists_settings)) = default_audio_extensions \<and>
   image_extensions (TreeParser_init (Some empty_lists_settings)) = default_image_extensions \<and>
   subtitle_extensions (TreeParser_init (Some empty_lists_settings))
     = default_subtitle_extensions \<and>
   metadata_extensions (TreeParser_init (Some empty_lists_settings))
     = default_metadata_extensions \<and>
   get_file_type (TreeParser_init (Some empty_lists_settings)) ''Movie.MKV'' = (VIDEO, ''mkv'')"
proof -
  have h: "ps_video_file_types empty_lists_settings = Some []"
    "ps_audio_file_types empty_lists_settings = None"
    "ps_image_file_types empty_lists_settings = Some []"
    "ps_subtitle_file_types empty_lists_settings = None"
    "ps_metadata_file_types empty_lists_settings = None"
    by (simp_all add: empty_lists_settings_def)
  have e: "lstrip_chars CHR ''.'' (lower (snd (splitext ''Movie.MKV''))) = ''mkv''"
    by code_simp
  show ?thesis
    using tree_parser_defaults [of empty_lists_settings "''Movie.MKV''"] h e by simp
qed

section \<open>Rows and objects: look-up after a write\<close>

lemma find_replace_task:
  "find (\<lambda>r. t_id r = tid) ts = Some t0 \<Longrightarrow> t_id t = tid \<Longrightarrow>
   find (\<lambda>r. t_id r = tid) (map (\<lambda>r. if t_id r = t_id t then t else r) ts) = Some t"
  by (induction ts) (auto split: if_splits)

lemma find_replace_task_other:
  "t_id t \<noteq> tid \<Longrightarrow>
   find (\<lambda>r. t_id r = tid) (map (\<lambda>r. if t_id r = t_id t then t else r) ts) = find (\<lambda>r. t_id r = tid) ts"
  by (induction ts) auto

lemma get_task_id: "get_task w tid = Some t \<Longrightarrow> t_id t = tid"
  by (auto simp: get_task_def find_Some_iff)

lemma get_task_save_task:
  "get_task w tid = Some t0 \<Longrightarrow> t_id t = tid \<Longrightarrow> get_task (save_task t w) tid = Some t"
  using find_replace_task [of tid "w_tasks w" t0 t] by (simp add: get_task_def save_task_def)

lemma get_task_save_task_other:
  "t_id t \<noteq> tid \<Longrightarrow> get_task (save_task t w) tid = get_task w tid"
  using find_replace_task_other [of t tid "w_tasks w"] by (simp add: get_task_def save_task_def)

lemma find_replace_download:
  "find (\<lambda>r. d_id r = k) ds = Some d0 \<Longrightarrow> d_id d = k \<Longrightarrow>
   find (\<lambda>r. d_id r = k) (map (\<lambda>r. if d_id r = d_id d then d else r) ds) = Some d"
  by (induction ds) (auto split: if_splits)

lemma get_download_task_id: "get_download_task w k = Some d \<Longrightarrow> d_id d = k"
  by (auto simp: get_download_task_def find_Some_iff)

lemma get_download_task_save:
  "get_download_task w k = Some d0 \<Longrightarrow> d_id d = k \<Longrightarrow>
   get_download_task (save_download_task d w) k = Some d"
  using find_replace_download [of k "w_download_tasks w" d0 d]
  by (simp add: get_download_task_def save_download_task_def)

lemma task_log_get:
  "get_task w tid = Some t \<Longrightarrow>
   get_task (task_log tid2 l m w) tid =
     Some (if tid2 = tid then t \<lparr> t_log_content := t_log_content t @ [(datetime_now w, l, m)] \<rparr>
           else t)"
proof (cases "get_task w tid2")
  case None
  assume "get_task w tid = Some t"
  with None show ?thesis by (auto simp: task_log_def)
next
  case (Some t2)
  assume g: "get_task w tid = Some t"
  have id2: "t_id t2 = tid2" using Some by (rule get_task_id)
  show ?thesis
  proof (cases "tid2 = tid")
    case True
    with Some g have "t2 = t" by simp
    with True Some g id2 show ?thesis
      by (simp add: task_log_def get_task_save_task)
  next
    case False
    with Some g id2 show ?thesis
      by (simp add: task_log_def get_task_save_task_other)
  qed
qed

lemma task_log_frame:
  "w_download_tasks (task_log tid l m w) = w_download_tasks w"
  "w_clock (task_log tid l m w) = w_clock w"
  "w_heartbeat_attr (task_log tid l m w) = w_heartbeat_attr w"
  by (auto simp: task_log_def save_task_def split: option.splits)

lemma log_if_task_frame:
  "w_download_tasks (log_if_task tk l m w) = w_download_tasks w"
  "w_clock (log_if_task tk l m w) = w_clock w"
  by (auto simp: log_if_task_def task_log_frame split: option.splits)

lemma log_task_progress_heartbeat:
  "get_task w tid = Some t \<Longrightarrow>
   \<exists>t'. get_task (log_task_progress tk a b st w) tid = Some t' \<and>
        t_last_heartbeat t' = t_last_heartbeat t"
  by (auto simp: log_task_progress_def task_log_get split: option.splits)

lemma update_task_heartbeat_get:
  "get_task w tid = Some t \<Longrightarrow>
   get_task (update_task_heartbeat tid w) tid =
     Some (if w_heartbeat_attr w then t \<lparr> t_last_heartbeat := Some (datetime_now w) \<rparr> else t)"
  using get_task_id [of w tid t]
  by (simp add: update_task_heartbeat_def add_heartbeat_to_task_def get_task_save_task)

lemma fold_save_download_tasks_tasks:
  "w_tasks (fold (\<lambda>d. save_download_task (f d)) ds w) = w_tasks w"
  by (induction ds arbitrary: w) (simp_all add: save_download_task_def)

lemma obj_log_tasks_get:
  "get_task w (t_id task) = Some row \<Longrightarrow>
   get_task (snd (obj_log task l m w)) (t_id task) =
     Some (row \<lparr> t_log_content := t_log_content task @ [(datetime_now w, l, m)] \<rparr>)"
proof -
  have "find (\<lambda>r. t_id r = tid) ts = Some row \<Longrightarrow>
        find (\<lambda>r. t_id r = tid) (map (\<lambda>r. if t_id r = tid then r \<lparr> t_log_content := c \<rparr> else r) ts)
          = Some (row \<lparr> t_log_content := c \<rparr>)" for tid ts c
    by (induction ts) (auto split: if_splits)
  then show "get_task w (t_id task) = Some row \<Longrightarrow> ?thesis"
    by (simp add: obj_log_def get_task_def Let_def)
qed

lemma createstrm_frame:
  "createstrm self fp h sp w = (r, w2) \<Longrightarrow>
   w_download_tasks w2 = w_download_tasks w \<and> w_tasks w2 = w_tasks w \<and> w_clock w2 = w_clock w"
  by (auto simp: createstrm_def Let_def ensure_dir_exists_def write_file_def
           split: sum.splits if_splits)

lemma download_worker_frame:
  "download_worker rd task w = (r, w2) \<Longrightarrow>
   w_download_tasks w2 = w_download_tasks w \<and> w_tasks w2 = w_tasks w \<and> w_clock w2 = w_clock w"
  by (auto simp: download_worker_def Let_def ensure_dir_exists_def write_file_def
           split: sum.splits if_splits option.splits http_result.splits)

lemma save_download_task_frame:
  "w_tasks (save_download_task d w) = w_tasks w"
  "w_clock (save_download_task d w) = w_clock w"
  by (simp_all add: save_download_task_def)

lemma get_task_cong: "w_tasks w2 = w_tasks w \<Longrightarrow> get_task w2 tid = get_task w tid"
  by (simp add: get_task_def)

lemma get_download_task_cong:
  "w_download_tasks w2 = w_download_tasks w \<Longrightarrow> get_download_task w2 k = get_download_task w k"
  by (simp add: get_download_task_def)

lemma begin_attempt_fields:
  "d_id (fst (begin_attempt kind st sid th task w)) = d_id task"
  "d_attempt_count (fst (begin_attempt kind st sid th task w)) = d_attempt_count task"
  "d_max_attempts (fst (begin_attempt kind st sid th task w)) = d_max_attempts task"
  "d_worker_id (fst (begin_attempt kind st sid th task w)) = d_worker_id task"
  "d_download_started (fst (begin_attempt kind st sid th task w)) = d_download_started task"
  "d_download_completed (fst (begin_attempt kind st sid th task w)) = d_download_completed task"
  "d_source_path (fst (begin_attempt kind st sid th task w)) = d_source_path task"
  "w_clock (snd (begin_attempt kind st sid th task w)) = w_clock w"
  by (simp_all add: begin_attempt_def Let_def log_if_task_frame save_download_task_frame)

lemma begin_attempt_row:
  "get_download_task w k = Some task \<Longrightarrow>
   get_download_task (snd (begin_attempt kind st sid th task w)) k
     = Some (fst (begin_attempt kind st sid th task w))"
  using get_download_task_id [of w k task]
  by (auto simp: begin_attempt_def Let_def get_download_task_save
        get_download_task_cong [OF log_if_task_frame(1)])

lemma log_if_task_get:
  "get_task w tid = Some t \<Longrightarrow>
   get_task (log_if_task (Some tid) l m w) tid =
     Some (t \<lparr> t_log_content := t_log_content t @ [(datetime_now w, l, m)] \<rparr>)"
  by (simp add: log_if_task_def task_log_get)

lemma begin_attempt_task:
  "get_task w tid = Some t \<Longrightarrow>
   \<exists>t1. get_task (snd (begin_attempt kind st sid th task w)) tid = Some t1"
  by (cases st)
     (auto simp: begin_attempt_def Let_def log_if_task_def task_log_get
        get_task_cong [OF save_download_task_frame(1)])

section \<open>Settings version\<close>

lemma field_changed_iff: "field_changed new old = (or_old_opt new old \<noteq> old)"
  by (cases new) (auto simp: field_changed_def or_old_opt_def)

lemma need_version_update_iff:
  "need_version_update data st = (file_type_lists (apply_update data st) \<noteq> file_type_lists st)"
  by (auto simp: need_version_update_def file_type_lists_def apply_update_def field_changed_iff)

text \<open>
  C7: an update that is accepted on an existing settings row increments
  \<open>settings_version\<close> by one if and only if one of the five stored extension lists
  changes, and leaves it as it was when none of the five changes.
\<close>

theorem settings_version_bump:
  assumes "w_settings w = Some st" and "create_or_update_settings data uid w = Inr w'"
  shows "\<exists>st'. w_settings w' = Some st' \<and>
           (ss_settings_version st' = ss_settings_version st + 1
              \<longleftrightarrow> file_type_lists st' \<noteq> file_type_lists st) \<and>
           (file_type_lists st' = file_type_lists st
              \<longrightarrow> ss_settings_version st' = ss_settings_version st)"
proof -
  let ?u = "apply_update data st"
  let ?v = "if need_version_update data st
            then ?u \<lparr> ss_settings_version := ss_settings_version ?u + 1 \<rparr> else ?u"
  from assms have w': "w' = w \<lparr> w_settings := Some (?v \<lparr> ss_updated_by_id := uid \<rparr>) \<rparr>"
    by (auto simp: create_or_update_settings_def Let_def split: if_splits)
  have lists: "file_type_lists (?v \<lparr> ss_updated_by_id := uid \<rparr>) = file_type_lists ?u"
    by (simp add: file_type_lists_def)
  have ver: "ss_settings_version ?u = ss_settings_version st"
    by (simp add: apply_update_def)
  have "ss_settings_version (?v \<lparr> ss_updated_by_id := uid \<rparr>) =
          (if need_version_update data st then ss_settings_version st + 1
           else ss_settings_version st)"
    using ver by simp
  then show ?thesis
    using w' lists need_version_update_iff [of data st] by auto
qed

text \<open>
  Witness for C7: an update that sets video to \<open>mkv,mp4\<close> and audio to \<open>mp3\<close> takes the
  version from 1 to 2; an update that repeats the stored video list and changes the thread
  count only leaves it at 1.
\<close>

theorem settings_version_bump_witness:
  "(\<exists>st'. w_settings (scenario_world \<lparr> w_settings := Some (scenario_settings_row
      \<lparr> ss_default_media_server_id := Some 1, ss_download_threads := 4,
        ss_video_file_types := Some ''mkv,mp4'', ss_audio_file_types := Some ''mp3'',
        ss_settings_version := 2, ss_updated_by_id := Some 7 \<rparr>) \<rparr>) = Some st' \<and>
      ss_settings_version st' = ss_settings_version scenario_settings_row + 1 \<and>
      file_type_lists st' \<noteq> file_type_lists scenario_settings_row) \<and>
   (\<exists>st'. w_settings (scenario_world \<lparr> w_settings := Some (scenario_settings_row
      \<lparr> ss_default_media_server_id := Some 1, ss_download_threads := 4,
        ss_updated_by_id := Some 7 \<rparr>) \<rparr>) = Some st' \<and>
      ss_settings_version st' = ss_settings_version scenario_settings_row \<and>
      file_type_lists st' = file_type_lists scenario_settings_row)"
proof -
  have h0: "w_settings scenario_world = Some scenario_settings_row"
    by (simp add: scenario_world_def)
  have h1: "create_or_update_settings scenario_update (Some 7) scenario_world =
   Inr (scenario_world \<lparr> w_settings := Some (scenario_settings_row
      \<lparr> ss_default_media_server_id := Some 1, ss_download_threads := 4,
        ss_video_file_types := Some ''mkv,mp4'', ss_audio_file_types := Some ''mp3'',
        ss_settings_version := 2, ss_updated_by_id := Some 7 \<rparr>) \<rparr>)"
    by code_simp
  have h2: "create_or_update_settings scenario_update_same_lists (Some 7) scenario_world =
   Inr (scenario_world \<lparr> w_settings := Some (scenario_settings_row
      \<lparr> ss_default_media_server_id := Some 1, ss_download_threads := 4,
        ss_updated_by_id := Some 7 \<rparr>) \<rparr>)"
    by code_simp
  have v: "ss_settings_version scenario_settings_row + 1 = 2"
    by (simp add: scenario_settings_row_def new_settings_def)
  have c1: "file_type_lists (scenario_settings_row
      \<lparr> ss_default_media_server_id := Some 1, ss_download_threads := 4,
        ss_video_file_types := Some ''mkv,mp4'', ss_audio_file_types := Some ''mp3'',
        ss_settings_version := 2, ss_updated_by_id := Some 7 \<rparr>)
        \<noteq> file_type_lists scenario_settings_row"
    by (simp add: file_type_lists_def scenario_settings_row_def new_settings_def)
  have c2: "file_type_lists (scenario_settings_row
      \<lparr> ss_default_media_server_id := Some 1, ss_download_threads := 4,
        ss_updated_by_id := Some 7 \<rparr>) = file_type_lists scenario_settings_row"
    by (simp add: file_type_lists_def)
  from settings_version_bump [OF h0 h1] c1 have a: "\<exists>st'. w_settings (scenario_world \<lparr> w_settings := Some (scenario_settings_row
      \<lparr> ss_default_media_server_id := Some 1, ss_download_threads := 4,
        ss_video_file_types := Some ''mkv,mp4'', ss_audio_file_types := Some ''mp3'',
        ss_settings_version := 2, ss_updated_by_id := Some 7 \<rparr>) \<rparr>) = Some st' \<and>
      ss_settings_version st' = ss_settings_version scenario_settings_row + 1 \<and>
      file_type_lists st' \<noteq> file_type_lists scenario_settings_row"
    by auto
  from settings_version_bump [OF h0 h2] c2 have b: "\<exists>st'. w_settings (scenario_world \<lparr> w_settings := Some (scenario_settings_row
      \<lparr> ss_default_media_server_id := Some 1, ss_download_threads := 4,
        ss_updated_by_id := Some 7 \<rparr>) \<rparr>) = Some st' \<and>
      ss_settings_version st' = ss_settings_version scenario_settings_row \<and>
      file_type_lists st' = file_type_lists scenario_settings_row"
    by auto
  from a b show ?thesis by blast
qed

section \<open>Cancel, continue, delete\<close>

text \<open>
  C8: after a Cancel that succeeded, a second Cancel of the same Task (by any caller, at
  any reading of the clock) raises an error and leaves the whole state as it was: the
  Task's status, end time and log and every Sub-Task included.
\<close>

theorem cancel_twice_noop:
  assumes "cancel_task task_id usr w = (Inr n, w')"
  shows "\<exists>e. cancel_task task_id usr2 (w' \<lparr> w_clock := c \<rparr>) = (Inl e, w' \<lparr> w_clock := c \<rparr>)"
proof -
  from assms obtain task where g: "get_task w task_id = Some task"
    by (auto simp: cancel_task_def split: option.splits)
  have tid: "t_id task = task_id" using g by (rule get_task_id)
  let ?obj = "task \<lparr> t_status := TASK_CANCELED, t_end_time := Some (datetime_now w) \<rparr>"
  let ?r = "obj_log ?obj INFO UserCanceled w"
  let ?w1 = "save_task (fst ?r) (snd ?r)"
  from assms g have ok: "t_created_by_id task = u_id usr" "t_status task \<in> {TASK_PENDING, TASK_RUNNING}"
    by (auto simp: cancel_task_def split: if_splits)
  from assms g ok have tasks': "w_tasks w' = w_tasks ?w1"
    by (auto simp: cancel_task_def Let_def fold_save_download_tasks_tasks)
  have "get_task (snd ?r) task_id \<noteq> None"
    using obj_log_tasks_get [of w ?obj task INFO UserCanceled] g tid by simp
  then obtain row where row: "get_task (snd ?r) task_id = Some row" by auto
  have id: "t_id (fst ?r) = task_id" using tid by (simp add: obj_log_def Let_def)
  have st: "t_status (fst ?r) = TASK_CANCELED" by (simp add: obj_log_def Let_def)
  have "get_task ?w1 task_id = Some (fst ?r)"
    using row id by (rule get_task_save_task)
  then have g2: "get_task (w' \<lparr> w_clock := c \<rparr>) task_id = Some (fst ?r)"
    using tasks' by (simp add: get_task_def)
  show ?thesis
    using g2 st by (simp add: cancel_task_def)
qed

text \<open>Witness for C8: the running scenario Task, canceled twice by its owner.\<close>

theorem cancel_twice_noop_witness:
  "\<exists>e. cancel_task 1 scenario_user
          ((snd (cancel_task 1 scenario_user scenario_world)) \<lparr> w_clock := 101 \<rparr>) =
        (Inl e, (snd (cancel_task 1 scenario_user scenario_world)) \<lparr> w_clock := 101 \<rparr>)"
proof -
  have h: "cancel_task 1 scenario_user scenario_world =
             (Inr 1, snd (cancel_task 1 scenario_user scenario_world))"
    by code_simp
  show ?thesis by (rule cancel_twice_noop [OF h])
qed

text \<open>
  C10: deleting a Task that exists, by its owner, deletes its Sub-Task rows, its STRM
  file rows and the Task row, whatever happens to the output directory; when
  \<open>shutil.rmtree\<close> raises, the files stay and the rows are deleted all the same.
\<close>

theorem delete_task_deletes_records:
  assumes "get_task w task_id = Some task" and "t_created_by_id task = u_id usr"
  shows "\<exists>res. fst (delete_task task_id usr w) = Inr res \<and>
           get_task (snd (delete_task task_id usr w)) task_id = None \<and>
           (\<forall>d \<in> set (w_download_tasks (snd (delete_task task_id usr w))). d_task_id d \<noteq> task_id) \<and>
           (\<forall>f \<in> set (w_strm_files (snd (delete_task task_id usr w))). sf_task_id f \<noteq> task_id) \<and>
           (path_exists w (path_str (Path (t_output_dir task))) \<and>
            path_str (Path (t_output_dir task)) \<in> set (w_undeletable w) \<longrightarrow>
              \<not> directory_deleted res \<and>
              w_files (snd (delete_task task_id usr w)) = w_files w \<and>
              w_dirs (snd (delete_task task_id usr w)) = w_dirs w)"
proof -
  have tid: "t_id task = task_id" using assms(1) by (rule get_task_id)
  have nf: "find (\<lambda>t. t_id t = task_id) (filter (\<lambda>t. t_id t \<noteq> task_id) ts) = None" for ts :: "strm_task list"
    by (induction ts) auto
  show ?thesis
    using assms tid nf
    by (auto simp: delete_task_def Let_def get_task_def rmtree_def split: option.splits if_splits)
qed

text \<open>Witness for C10: the output directory \<open>/o\<close> exists and cannot be removed.\<close>

theorem delete_task_deletes_records_witness:
  "\<exists>res. fst (delete_task 1 scenario_user undeletable_world) = Inr res \<and>
     get_task (snd (delete_task 1 scenario_user undeletable_world)) 1 = None \<and>
     w_download_tasks (snd (delete_task 1 scenario_user undeletable_world)) = [] \<and>
     w_strm_files (snd (delete_task 1 scenario_user undeletable_world)) = [] \<and>
     \<not> directory_deleted res \<and>
     w_files (snd (delete_task 1 scenario_user undeletable_world)) = w_files undeletable_world"
proof -
  have h1: "get_task undeletable_world 1 = Some scenario_task" by code_simp
  have h2: "t_created_by_id scenario_task = u_id scenario_user" by code_simp
  have h3: "path_exists undeletable_world (path_str (Path (t_output_dir scenario_task))) \<and>
            path_str (Path (t_output_dir scenario_task)) \<in> set (w_undeletable undeletable_world)"
    by code_simp
  have h4: "w_download_tasks (snd (delete_task 1 scenario_user undeletable_world)) = [] \<and>
            w_strm_files (snd (delete_task 1 scenario_user undeletable_world)) = []"
    by code_simp
  show ?thesis
    using delete_task_deletes_records [OF h1 h2] h3 h4 by auto
qed

text \<open>
  C5 as stated: a canceled STRM Sub-Task whose target fails integrity (an empty file)
  would go back to pending. The code takes a STRM target that exists as complete: the
  Sub-Task with the empty file \<open>/o/movies/b.strm\<close> becomes completed.
\<close>

theorem continue_empty_strm_counterexample:
  "getsize canceled_world ''/o/movies/b.strm'' = Some 0 \<and>
   fst (continue_download_task canceled_world empty_strm_subtask) \<noteq>
     empty_strm_subtask \<lparr> d_status := PENDING, d_error_message := None \<rparr> \<and>
   d_status (fst (continue_download_task canceled_world empty_strm_subtask)) = COMPLETED"
  by code_simp

text \<open>
  C5, amended: Continue is refused unless the Task is canceled, and it maps a Sub-Task
  as follows. Completed with an existing target: unchanged. Completed with a missing
  target: pending, error message "file lost". Canceled with an existing target that is
  complete: completed, error cleared. Canceled otherwise: pending, error cleared. Failed or
  retry: pending, attempts 0, error cleared. A target is complete for a STRM Sub-Task as
  soon as it exists, and for a resource Sub-Task when the recorded size is not zero and
  equals the size on disk.
\<close>

theorem continue_mapping:
  "(d_status dl = COMPLETED \<and> target_exists w dl \<longrightarrow> fst (continue_download_task w dl) = dl) \<and>
   (d_status dl = COMPLETED \<and> \<not> target_exists w dl \<longrightarrow>
      fst (continue_download_task w dl) = dl \<lparr> d_status := PENDING, d_error_message := Some FileLost \<rparr>) \<and>
   (d_status dl = CANCELED \<and> target_exists w dl \<and> file_is_complete w dl \<longrightarrow>
      fst (continue_download_task w dl) = dl \<lparr> d_status := COMPLETED, d_error_message := None \<rparr>) \<and>
   (d_status dl = CANCELED \<and> \<not> (target_exists w dl \<and> file_is_complete w dl) \<longrightarrow>
      fst (continue_download_task w dl) = dl \<lparr> d_status := PENDING, d_error_message := None \<rparr>) \<and>
   (d_status dl = FAILED \<or> d_status dl = RETRY \<longrightarrow>
      fst (continue_download_task w dl) =
        dl \<lparr> d_status := PENDING, d_error_message := None, d_attempt_count := 0 \<rparr>) \<and>
   (d_target_path dl = Some p \<longrightarrow>
      file_is_complete w dl =
        (d_process_type dl = STRM_GENERATION \<or>
         (d_process_type dl = RESOURCE_DOWNLOAD \<and>
          (\<exists>n. n \<noteq> 0 \<and> d_file_size dl = Some (int n) \<and> getsize w p = Some n)))) \<and>
   (get_task w task_id = Some t \<and> t_status t \<noteq> TASK_CANCELED \<longrightarrow>
      (\<exists>e. continue_task task_id usr n_files w = (Inl e, w)))"
proof -
  have fc: "d_target_path dl = Some p \<Longrightarrow>
      file_is_complete w dl =
        (d_process_type dl = STRM_GENERATION \<or>
         (d_process_type dl = RESOURCE_DOWNLOAD \<and>
          (\<exists>n. n \<noteq> 0 \<and> d_file_size dl = Some (int n) \<and> getsize w p = Some n)))"
    by (cases "d_process_type dl"; cases "getsize w p") (auto simp: file_is_complete_def)
  have ct: "get_task w task_id = Some t \<Longrightarrow> t_status t \<noteq> TASK_CANCELED \<Longrightarrow>
      (\<exists>e. continue_task task_id usr n_files w = (Inl e, w))"
    by (simp add: continue_task_def)
  have m: "(d_status dl = COMPLETED \<and> target_exists w dl \<longrightarrow> fst (continue_download_task w dl) = dl)"
   "(d_status dl = COMPLETED \<and> \<not> target_exists w dl \<longrightarrow>
      fst (continue_download_task w dl) = dl \<lparr> d_status := PENDING, d_error_message := Some FileLost \<rparr>)"
   "(d_status dl = CANCELED \<and> target_exists w dl \<and> file_is_complete w dl \<longrightarrow>
      fst (continue_download_task w dl) = dl \<lparr> d_status := COMPLETED, d_error_message := None \<rparr>)"
   "(d_status dl = CANCELED \<and> \<not> (target_exists w dl \<and> file_is_complete w dl) \<longrightarrow>
      fst (continue_download_task w dl) = dl \<lparr> d_status := PENDING, d_error_message := None \<rparr>)"
   "(d_status dl = FAILED \<or> d_status dl = RETRY \<longrightarrow>
      fst (continue_download_task w dl) =
        dl \<lparr> d_status := PENDING, d_error_message := None, d_attempt_count := 0 \<rparr>)"
    by (auto simp: continue_download_task_def)
  from m fc ct show ?thesis by blast
qed

text \<open>Witness for C5: one Sub-Task for each line of the mapping, and a running Task.\<close>

theorem continue_mapping_witness:
  "fst (continue_download_task canceled_world kept_subtask) = kept_subtask \<and>
   fst (continue_download_task canceled_world lost_subtask) =
     lost_subtask \<lparr> d_status := PENDING, d_error_message := Some FileLost \<rparr> \<and>
   fst (continue_download_task canceled_world sized_subtask) =
     sized_subtask \<lparr> d_status := COMPLETED, d_error_message := None \<rparr> \<and>
   fst (continue_download_task canceled_world unsized_subtask) =
     unsized_subtask \<lparr> d_status := PENDING, d_error_message := None \<rparr> \<and>
   fst (continue_download_task canceled_world failed_subtask) =
     failed_subtask \<lparr> d_status := PENDING, d_error_message := None, d_attempt_count := 0 \<rparr> \<and>
   file_is_complete canceled_world sized_subtask \<and>
   (\<exists>e. continue_task 1 scenario_user 1 scenario_world = (Inl e, scenario_world))"
proof -
  have k: "d_status kept_subtask = COMPLETED \<and> target_exists canceled_world kept_subtask"
    by code_simp
  have l: "d_status lost_subtask = COMPLETED \<and> \<not> target_exists canceled_world lost_subtask"
    by code_simp
  have s: "d_status sized_subtask = CANCELED \<and> target_exists canceled_world sized_subtask \<and>
           file_is_complete canceled_world sized_subtask"
    by code_simp
  have u: "d_status unsized_subtask = CANCELED \<and>
           \<not> (target_exists canceled_world unsized_subtask \<and>
              file_is_complete canceled_world unsized_subtask)"
    by code_simp
  have f: "d_status failed_subtask = FAILED \<or> d_status failed_subtask = RETRY"
    by code_simp
  have p: "d_target_path sized_subtask = Some ''/o/show/poster.jpg''"
    by code_simp
  have z: "d_process_type sized_subtask = STRM_GENERATION \<or>
         (d_process_type sized_subtask = RESOURCE_DOWNLOAD \<and>
          (\<exists>n. n \<noteq> 0 \<and> d_file_size sized_subtask = Some (int n) \<and>
               getsize canceled_world ''/o/show/poster.jpg'' = Some n))"
  proof -
    have "d_process_type sized_subtask = RESOURCE_DOWNLOAD \<and> (4::nat) \<noteq> 0 \<and>
          d_file_size sized_subtask = Some (int 4) \<and>
          getsize canceled_world ''/o/show/poster.jpg'' = Some 4"
      by code_simp
    then show ?thesis by blast
  qed
  have r: "get_task scenario_world 1 = Some scenario_task \<and>
           t_status scenario_task \<noteq> TASK_CANCELED"
    by code_simp
  note c2 = conjunct2
  have m1: "fst (continue_download_task canceled_world kept_subtask) = kept_subtask"
    by (rule continue_mapping [of kept_subtask canceled_world, THEN conjunct1, rule_format, OF k])
  have m2: "fst (continue_download_task canceled_world lost_subtask) =
     lost_subtask \<lparr> d_status := PENDING, d_error_message := Some FileLost \<rparr>"
    by (rule continue_mapping [of lost_subtask canceled_world, THEN c2, THEN conjunct1,
                               rule_format, OF l])
  have m3: "fst (continue_download_task canceled_world sized_subtask) =
     sized_subtask \<lparr> d_status := COMPLETED, d_error_message := None \<rparr>"
    by (rule continue_mapping [of sized_subtask canceled_world, THEN c2, THEN c2, THEN conjunct1,
                               rule_format, OF s])
  have m4: "fst (continue_download_task canceled_world unsized_subtask) =
     unsized_subtask \<lparr> d_status := PENDING, d_error_message := None \<rparr>"
    by (rule continue_mapping [of unsized_subtask canceled_world, THEN c2, THEN c2, THEN c2,
                               THEN conjunct1, rule_format, OF u])
  have m5: "fst (continue_download_task canceled_world failed_subtask) =
     failed_subtask \<lparr> d_status := PENDING, d_error_message := None, d_attempt_count := 0 \<rparr>"
    by (rule continue_mapping [of failed_subtask canceled_world, THEN c2, THEN c2, THEN c2,
                               THEN c2, THEN conjunct1, rule_format, OF f])
  have m6: "file_is_complete canceled_world sized_subtask"
    using continue_mapping [of sized_subtask canceled_world "''/o/show/poster.jpg''",
                            THEN c2, THEN c2, THEN c2, THEN c2, THEN c2, THEN conjunct1,
                            rule_format, OF p] z
    by (rule iffD2)
  have m7: "\<exists>e. continue_task 1 scenario_user 1 scenario_world = (Inl e, scenario_world)"
    by (rule continue_mapping [of _ scenario_world _ 1 scenario_task scenario_user 1,
                               THEN c2, THEN c2, THEN c2, THEN c2, THEN c2, THEN c2,
                               rule_format, OF r])
  from m1 m2 m3 m4 m5 m6 m7 show ?thesis by (intro conjI)
qed

section \<open>Heartbeat\<close>

text \<open>
  C3 as stated: after each batch the Task's \<open>last_heartbeat\<close> is the current time. With
  \<open>StrmTask\<close> as it is declared (no \<open>last_heartbeat\<close> attribute) the guard of
  \<open>add_heartbeat_to_task\<close> skips the write: after the batch of the running scenario Task
  the field is still empty at clock 100.
\<close>

theorem heartbeat_not_written_counterexample:
  "t_status scenario_task = TASK_RUNNING \<and> datetime_now scenario_world = 100 \<and>
   map t_last_heartbeat
     (w_tasks (snd (strm_after_batch scenario_writer 1 0
                      (strm_run_batch scenario_writer 0 [1] scenario_world)))) = [None] \<and>
   map t_last_heartbeat
     (w_tasks (snd (strm_after_batch scenario_writer 1 0
                      (strm_run_batch scenario_writer 0 [1] scenario_world)))) \<noteq> [Some 100]"
  by code_simp

text \<open>
  C3, amended: after a batch of either handler, for a Task that exists, has a non-zero
  id and is not canceled, \<open>last_heartbeat\<close> is the current time if Task objects have the
  attribute \<open>last_heartbeat\<close>, and is left as it was if they do not.
\<close>

theorem heartbeat_after_batch:
  assumes "get_task w tid = Some t" and "tid \<noteq> 0"
  shows "(sd_task_id self = Some tid \<and> \<not> self_task_canceled (sd_task self) w \<longrightarrow>
            (\<exists>t'. get_task (snd (strm_after_batch self total_n i w)) tid = Some t' \<and>
                  t_last_heartbeat t' =
                    (if w_heartbeat_attr w then Some (datetime_now w) else t_last_heartbeat t))) \<and>
         (rd_task_id rd = Some tid \<and> \<not> self_task_canceled (rd_task rd) w \<longrightarrow>
            (\<exists>t'. get_task (snd (rd_after_batch rd total_n i w)) tid = Some t' \<and>
                  t_last_heartbeat t' =
                    (if w_heartbeat_attr w then Some (datetime_now w) else t_last_heartbeat t)))"
proof -
  let ?t1 = "if w_heartbeat_attr w then t \<lparr> t_last_heartbeat := Some (datetime_now w) \<rparr> else t"
  have h: "get_task (update_task_heartbeat tid w) tid = Some ?t1"
    using assms(1) by (rule update_task_heartbeat_get)
  have p: "\<exists>t'. get_task (log_task_progress tk a b st (update_task_heartbeat tid w)) tid = Some t' \<and>
        t_last_heartbeat t' = t_last_heartbeat ?t1" for tk a b st
    using h by (rule log_task_progress_heartbeat)
  have v: "t_last_heartbeat ?t1 =
             (if w_heartbeat_attr w then Some (datetime_now w) else t_last_heartbeat t)"
    by simp
  show ?thesis
    using p v assms(2) by (simp add: strm_after_batch_def rd_after_batch_def)
qed

text \<open>Witness for C3: the scenario Task in a state where the attribute exists.\<close>

theorem heartbeat_after_batch_witness:
  "(\<exists>t'. get_task (snd (strm_after_batch scenario_writer 1 0 heartbeat_world)) 1 = Some t' \<and>
         t_last_heartbeat t' = Some 100) \<and>
   (\<exists>t'. get_task (snd (rd_after_batch scenario_downloader 1 0 heartbeat_world)) 1 = Some t' \<and>
         t_last_heartbeat t' = Some 100)"
proof -
  have h1: "get_task heartbeat_world 1 = Some scenario_task" by code_simp
  have h2: "(1::nat) \<noteq> 0" by simp
  have h3: "sd_task_id scenario_writer = Some 1 \<and>
            \<not> self_task_canceled (sd_task scenario_writer) heartbeat_world" by code_simp
  have h4: "rd_task_id scenario_downloader = Some 1 \<and>
            \<not> self_task_canceled (rd_task scenario_downloader) heartbeat_world" by code_simp
  have h5: "w_heartbeat_attr heartbeat_world" "datetime_now heartbeat_world = 100"
    by code_simp+
  show ?thesis
    using heartbeat_after_batch [OF h1 h2, of scenario_writer 1 0 scenario_downloader] h3 h4 h5
    by simp
qed

section \<open>Retry policy\<close>

lemma on_exception_row:
  assumes "get_download_task w k = Some row" and "d_id task = k"
  shows "get_download_task (snd (on_exception kind st sid iv th e task w)) k =
           Some (if d_attempt_count task + 1 < d_max_attempts task
                 then task \<lparr> d_error_message := Some (ExceptionText e),
                             d_attempt_count := d_attempt_count task + 1,
                             d_status := RETRY,
                             d_retry_after := Some (datetime_now w + iv),
                             d_worker_id := None, d_download_started := None,
                             d_download_completed := None \<rparr>
                 else task \<lparr> d_error_message := Some (ExceptionText e),
                             d_attempt_count := d_attempt_count task + 1,
                             d_status := FAILED \<rparr>)"
proof -
  have r: "get_download_task (log_if_task st l m w) k = Some row" for l m
    using assms(1) by (simp add: get_download_task_cong [OF log_if_task_frame(1)])
  show ?thesis
    using assms(2) get_download_task_save [OF r]
    by (simp add: on_exception_def Let_def)
qed

lemma on_exception_task:
  assumes "get_task w tid = Some t"
  shows "get_task (snd (on_exception kind (Some tid) sid iv th e task w)) tid =
           Some (t \<lparr> t_log_content := t_log_content t @
             [(datetime_now w,
               if d_attempt_count task + 1 < d_max_attempts task
               then (WARNING, RetryScheduled kind th sid iv (file_name_of (d_source_path task))
                                (d_attempt_count task + 1) (d_max_attempts task))
               else (ERROR, FinalFailure kind th sid (file_name_of (d_source_path task))
                              (d_max_attempts task)))] \<rparr>)"
  using log_if_task_get [OF assms]
  by (simp add: on_exception_def Let_def get_task_cong [OF save_download_task_frame(1)])

subsection \<open>What the handlers keep\<close>

text \<open>
  Two facts about every state the code can reach. The row that \<open>DownloadTask.create\<close>
  writes leaves worker id and the two download timestamps empty, and every operation
  that writes Sub-Task rows keeps them empty (the lemmas \<open>..._unassigned\<close>): the handlers,
  the batches, the processor run, cancel, continue and delete. No handler and no batch
  writes the settings row (the lemmas \<open>..._settings\<close>), so the interval that \<open>genstrm\<close>
  and \<open>start_download\<close> load before their first batch is the interval of the settings row
  at every call of a handler.
\<close>

lemma rows_unassigned_cong:
  "w_download_tasks w2 = w_download_tasks w \<Longrightarrow> rows_unassigned w2 = rows_unassigned w"
  by (simp add: rows_unassigned_def)

lemma rows_unassigned_save:
  "rows_unassigned w \<Longrightarrow> columns_unassigned d \<Longrightarrow> rows_unassigned (save_download_task d w)"
  by (auto simp: rows_unassigned_def save_download_task_def list_all_iff)

lemma rows_unassigned_get:
  "rows_unassigned w \<Longrightarrow> get_download_task w k = Some task \<Longrightarrow> columns_unassigned task"
  by (auto simp: rows_unassigned_def get_download_task_def list_all_iff find_Some_iff)

lemma new_download_task_unassigned:
  "columns_unassigned (new_download_task k task_id file_path file_type file_size retry_count)"
  by (simp add: columns_unassigned_def new_download_task_def)

lemma begin_attempt_unassigned:
  assumes "rows_unassigned w" and "columns_unassigned task"
  shows "columns_unassigned (fst (begin_attempt kind st sid th task w))"
    and "rows_unassigned (snd (begin_attempt kind st sid th task w))"
  using assms
  by (simp_all add: begin_attempt_def Let_def columns_unassigned_def
        rows_unassigned_cong [OF log_if_task_frame(1)] rows_unassigned_save)

lemma on_exception_unassigned:
  assumes "rows_unassigned w" and "columns_unassigned task"
  shows "rows_unassigned (snd (on_exception kind st sid iv th e task w))"
proof -
  have l: "rows_unassigned (log_if_task st l m w)" for l m
    using assms(1) by (simp add: rows_unassigned_cong [OF log_if_task_frame(1)])
  show ?thesis
    using assms(2)
    by (simp add: on_exception_def Let_def columns_unassigned_def rows_unassigned_save [OF l])
qed

lemma strm_process_single_task_unassigned:
  assumes r: "rows_unassigned w"
  shows "rows_unassigned (snd (strm_process_single_task self k th w))"
proof (cases "get_download_task w k")
  case None
  then show ?thesis using r by (simp add: strm_process_single_task_def)
next
  case (Some task)
  note u = rows_unassigned_get [OF r Some]
  note b = begin_attempt_unassigned [OF r u, of STRM_GENERATION "sd_task self" "sd_task_id self" th]
  show ?thesis
  proof (cases "task_is_canceled w (d_task_id task)")
    case True
    have "columns_unassigned (task \<lparr> d_status := CANCELED, d_error_message := Some ParentCanceled \<rparr>)"
      using u by (simp add: columns_unassigned_def)
    then show ?thesis
      using Some True by (simp add: strm_process_single_task_def rows_unassigned_save [OF r])
  next
    case False
    obtain res w2 where c: "createstrm self
        (d_source_path (fst (begin_attempt STRM_GENERATION (sd_task self) (sd_task_id self) th task w)))
        (sd_base_url self) (sd_output_dir self)
        (snd (begin_attempt STRM_GENERATION (sd_task self) (sd_task_id self) th task w)) = (res, w2)"
      by (rule prod.exhaust)
    have r2: "rows_unassigned w2"
      using b(2) rows_unassigned_cong [OF conjunct1 [OF createstrm_frame [OF c]]] by simp
    show ?thesis
    proof (cases res)
      case (Inl e)
      show ?thesis
        using Some False c Inl on_exception_unassigned [OF r2 b(1)]
        by (simp add: strm_process_single_task_def Let_def)
    next
      case (Inr p)
      have "columns_unassigned ((fst (begin_attempt STRM_GENERATION (sd_task self) (sd_task_id self) th task w))
               \<lparr> d_status := COMPLETED, d_target_path := Some p \<rparr>)"
        using b(1) by (simp add: columns_unassigned_def)
      then show ?thesis
        using Some False c Inr rows_unassigned_save [OF r2]
        by (simp add: strm_process_single_task_def Let_def)
    qed
  qed
qed

lemma rd_process_single_task_unassigned:
  assumes r: "rows_unassigned w"
  shows "rows_unassigned (snd (rd_process_single_task self k th w))"
proof (cases "get_download_task w k")
  case None
  then show ?thesis using r by (simp add: rd_process_single_task_def)
next
  case (Some task)
  note u = rows_unassigned_get [OF r Some]
  note b = begin_attempt_unassigned [OF r u, of RESOURCE_DOWNLOAD "rd_task self" "rd_task_id self" th]
  show ?thesis
  proof (cases "task_is_canceled w (d_task_id task)")
    case True
    have "columns_unassigned (task \<lparr> d_status := CANCELED, d_error_message := Some ParentCanceled \<rparr>)"
      using u by (simp add: columns_unassigned_def)
    then show ?thesis
      using Some True by (simp add: rd_process_single_task_def rows_unassigned_save [OF r])
  next
    case False
    obtain res w2 where c: "download_worker self
        (fst (begin_attempt RESOURCE_DOWNLOAD (rd_task self) (rd_task_id self) th task w))
        (snd (begin_attempt RESOURCE_DOWNLOAD (rd_task self) (rd_task_id self) th task w)) = (res, w2)"
      by (rule prod.exhaust)
    have r2: "rows_unassigned w2"
      using b(2) rows_unassigned_cong [OF conjunct1 [OF download_worker_frame [OF c]]] by simp
    show ?thesis
    proof (cases res)
      case (Inl e)
      show ?thesis
        using Some False c Inl on_exception_unassigned [OF r2 b(1)]
        by (simp add: rd_process_single_task_def Let_def)
    next
      case (Inr p)
      have "columns_unassigned ((fst (begin_attempt RESOURCE_DOWNLOAD (rd_task self) (rd_task_id self) th task w))
               \<lparr> d_status := COMPLETED, d_target_path := Some p \<rparr>)"
        using b(1) by (simp add: columns_unassigned_def)
      then show ?thesis
        using Some False c Inr rows_unassigned_save [OF r2]
        by (simp add: rd_process_single_task_def Let_def)
    qed
  qed
qed

lemma strm_run_batch_unassigned:
  "rows_unassigned w \<Longrightarrow> rows_unassigned (strm_run_batch self idx ks w)"
  by (induction ks arbitrary: idx w) (simp_all add: strm_process_single_task_unassigned)

lemma rd_run_batch_unassigned:
  "rows_unassigned w \<Longrightarrow> rows_unassigned (rd_run_batch self idx ks w)"
  by (induction ks arbitrary: idx w) (simp_all add: rd_process_single_task_unassigned)

lemma task_log_settings: "w_settings (task_log tid l m w) = w_settings w"
  by (simp add: task_log_def save_task_def split: option.splits)

lemma log_if_task_settings: "w_settings (log_if_task tk l m w) = w_settings w"
  by (simp add: log_if_task_def task_log_settings split: option.splits)

lemma save_download_task_settings: "w_settings (save_download_task d w) = w_settings w"
  by (simp add: save_download_task_def)

lemma update_task_heartbeat_frame:
  "w_download_tasks (update_task_heartbeat tid w) = w_download_tasks w"
  "w_settings (update_task_heartbeat tid w) = w_settings w"
  by (simp_all add: update_task_heartbeat_def add_heartbeat_to_task_def save_task_def
        split: option.splits)

lemma log_task_progress_frame:
  "w_download_tasks (log_task_progress tk a b st w) = w_download_tasks w"
  "w_settings (log_task_progress tk a b st w) = w_settings w"
  by (simp_all add: log_task_progress_def task_log_frame task_log_settings split: option.splits)

lemma begin_attempt_settings:
  "w_settings (snd (begin_attempt kind st sid th task w)) = w_settings w"
  by (simp add: begin_attempt_def Let_def log_if_task_settings save_download_task_settings)

lemma on_exception_settings:
  "w_settings (snd (on_exception kind st sid iv th e task w)) = w_settings w"
  by (simp add: on_exception_def Let_def log_if_task_settings save_download_task_settings)

lemma createstrm_settings:
  "createstrm self fp h sp w = (r, w2) \<Longrightarrow> w_settings w2 = w_settings w"
  by (auto simp: createstrm_def Let_def ensure_dir_exists_def write_file_def
           split: sum.splits if_splits)

lemma download_worker_settings:
  "download_worker rd task w = (r, w2) \<Longrightarrow> w_settings w2 = w_settings w"
  by (auto simp: download_worker_def Let_def ensure_dir_exists_def write_file_def
           split: sum.splits if_splits option.splits http_result.splits)

lemma strm_process_single_task_settings:
  "w_settings (snd (strm_process_single_task self k th w)) = w_settings w"
proof (cases "get_download_task w k")
  case None
  then show ?thesis by (simp add: strm_process_single_task_def)
next
  case (Some task)
  obtain res w2 where c: "createstrm self
      (d_source_path (fst (begin_attempt STRM_GENERATION (sd_task self) (sd_task_id self) th task w)))
      (sd_base_url self) (sd_output_dir self)
      (snd (begin_attempt STRM_GENERATION (sd_task self) (sd_task_id self) th task w)) = (res, w2)"
    by (rule prod.exhaust)
  have s2: "w_settings w2 = w_settings w"
    using createstrm_settings [OF c] by (simp add: begin_attempt_settings)
  show ?thesis
    using Some c s2
    by (cases res)
       (simp_all add: strm_process_single_task_def Let_def save_download_task_settings
          on_exception_settings)
qed

lemma rd_process_single_task_settings:
  "w_settings (snd (rd_process_single_task self k th w)) = w_settings w"
proof (cases "get_download_task w k")
  case None
  then show ?thesis by (simp add: rd_process_single_task_def)
next
  case (Some task)
  obtain res w2 where c: "download_worker self
      (fst (begin_attempt RESOURCE_DOWNLOAD (rd_task self) (rd_task_id self) th task w))
      (snd (begin_attempt RESOURCE_DOWNLOAD (rd_task self) (rd_task_id self) th task w)) = (res, w2)"
    by (rule prod.exhaust)
  have s2: "w_settings w2 = w_settings w"
    using download_worker_settings [OF c] by (simp add: begin_attempt_settings)
  show ?thesis
    using Some c s2
    by (cases res)
       (simp_all add: rd_process_single_task_def Let_def save_download_task_settings
          on_exception_settings)
qed

lemma strm_run_batch_settings:
  "w_settings (strm_run_batch self idx ks w) = w_settings w"
  by (induction ks arbitrary: idx w) (simp_all add: strm_process_single_task_settings)

lemma rd_run_batch_settings:
  "w_settings (rd_run_batch self idx ks w) = w_settings w"
  by (induction ks arbitrary: idx w) (simp_all add: rd_process_single_task_settings)

lemma strm_after_batch_frame:
  "w_download_tasks (snd (strm_after_batch self n i w)) = w_download_tasks w"
  "w_settings (snd (strm_after_batch self n i w)) = w_settings w"
  by (simp_all add: strm_after_batch_def log_task_progress_frame update_task_heartbeat_frame
        split: option.splits)

lemma rd_after_batch_frame:
  "w_download_tasks (snd (rd_after_batch self n i w)) = w_download_tasks w"
  "w_settings (snd (rd_after_batch self n i w)) = w_settings w"
  by (simp_all add: rd_after_batch_def log_task_progress_frame update_task_heartbeat_frame
        split: option.splits)

lemma strm_batches_settings:
  "w_settings (strm_batches self n i bs w) = w_settings w"
  by (induction bs arbitrary: i w)
     (simp_all add: Let_def strm_after_batch_frame strm_run_batch_settings)

lemma rd_batches_settings:
  "w_settings (rd_batches self n i bs w) = w_settings w"
  by (induction bs arbitrary: i w)
     (simp_all add: Let_def rd_after_batch_frame rd_run_batch_settings)

lemma strm_batches_unassigned:
  "rows_unassigned w \<Longrightarrow> rows_unassigned (strm_batches self n i bs w)"
  by (induction bs arbitrary: i w)
     (simp_all add: Let_def rows_unassigned_cong [OF strm_after_batch_frame(1)]
        strm_run_batch_unassigned)

lemma rd_batches_unassigned:
  "rows_unassigned w \<Longrightarrow> rows_unassigned (rd_batches self n i bs w)"
  by (induction bs arbitrary: i w)
     (simp_all add: Let_def rows_unassigned_cong [OF rd_after_batch_frame(1)]
        rd_run_batch_unassigned)

lemma genstrm_unassigned:
  "rows_unassigned w \<Longrightarrow> rows_unassigned (snd (genstrm self w))"
  by (simp add: genstrm_def strm_batches_unassigned)

lemma start_download_unassigned:
  "rows_unassigned w \<Longrightarrow> rows_unassigned (snd (start_download self w))"
  by (simp add: start_download_def rd_batches_unassigned)

lemma settings_retry_interval_cong:
  "w_settings w2 = w_settings w \<Longrightarrow> settings_retry_interval w2 = settings_retry_interval w"
  by (simp add: settings_retry_interval_def)

lemma obj_log_rows: "w_download_tasks (snd (obj_log task l m w)) = w_download_tasks w"
  by (simp add: obj_log_def Let_def)

lemma save_task_rows: "w_download_tasks (save_task t w) = w_download_tasks w"
  by (simp add: save_task_def)

lemma obj_logs_rows: "w_download_tasks (snd (obj_logs task ms w)) = w_download_tasks w"
  by (induction ms arbitrary: task w) (simp_all add: Let_def obj_log_rows)

lemma obj_log_task_progress_rows:
  "w_download_tasks (snd (obj_log_task_progress task a b st w)) = w_download_tasks w"
  by (simp add: obj_log_task_progress_def Let_def obj_log_rows)

lemma task_logs_rows: "w_download_tasks (task_logs tid ms w) = w_download_tasks w"
  by (induction ms arbitrary: w) (simp_all add: task_log_frame)

lemma log_processor_settings_to_task_rows:
  "w_download_tasks (log_processor_settings_to_task tid st m w) = w_download_tasks w"
  unfolding log_processor_settings_to_task_def by (rule task_logs_rows)

lemma finish_task_rows: "w_download_tasks (finish_task tid e el w) = w_download_tasks w"
  by (simp add: finish_task_def Let_def save_task_rows obj_log_rows obj_logs_rows
        obj_log_task_progress_rows split: option.splits)

lemma process_strm_tasks_with_retry_unassigned:
  assumes "rows_unassigned w"
  shows "rows_unassigned (snd (process_strm_tasks_with_retry tid server od task st n w))"
proof -
  have l: "rows_unassigned (log_if_task task l m w)" for l m
    using assms by (simp add: rows_unassigned_cong [OF log_if_task_frame(1)])
  show ?thesis
    using assms
    by (simp add: process_strm_tasks_with_retry_def Let_def l
          rows_unassigned_cong [OF log_task_progress_frame(1)] genstrm_unassigned [OF l]
          split: option.splits)
qed

lemma process_resource_download_tasks_with_retry_unassigned:
  assumes "rows_unassigned w"
  shows "rows_unassigned (snd (process_resource_download_tasks_with_retry tid server od task st n w))"
proof -
  have l: "rows_unassigned (log_if_task task l m w)" for l m
    using assms by (simp add: rows_unassigned_cong [OF log_if_task_frame(1)])
  show ?thesis
    using assms
    by (simp add: process_resource_download_tasks_with_retry_def Let_def l
          rows_unassigned_cong [OF log_task_progress_frame(1)] start_download_unassigned [OF l]
          split: option.splits)
qed

lemma process_directory_tree_try_unassigned:
  assumes r: "rows_unassigned w"
  shows "rows_unassigned (snd (process_directory_tree_try sid n od task_id dsid w))"
proof -
  have a: "rows_unassigned (update_task_heartbeat tid w')" if "rows_unassigned w'" for tid w'
    using that by (simp add: rows_unassigned_cong [OF update_task_heartbeat_frame(1)])
  have b: "rows_unassigned (log_task_progress tk x y s (log_processor_settings_to_task tid st m w))"
    for tk x y s tid st m
    using r
    by (simp add: rows_unassigned_cong [OF log_task_progress_frame(1)]
          rows_unassigned_cong [OF log_processor_settings_to_task_rows])
  have c: "rows_unassigned (finish_task tid e el w')" if "rows_unassigned w'" for tid e el w'
    using that by (simp add: rows_unassigned_cong [OF finish_task_rows])
  note s = process_strm_tasks_with_retry_unassigned
  note d = process_resource_download_tasks_with_retry_unassigned
  show ?thesis
    using r
    by (simp add: process_directory_tree_try_def Let_def a b c s d split: option.splits)
qed

lemma process_directory_tree_unassigned:
  assumes r: "rows_unassigned w"
  shows "rows_unassigned (snd (process_directory_tree sid n od task_id dsid w))"
  using process_directory_tree_try_unassigned [OF r, of sid n od task_id dsid]
  by (auto simp: process_directory_tree_def Let_def
        rows_unassigned_cong [OF save_task_rows] rows_unassigned_cong [OF obj_log_rows]
        split: option.splits)

lemma fold_save_unassigned:
  "rows_unassigned w \<Longrightarrow> \<forall>x \<in> set xs. columns_unassigned (g x) \<Longrightarrow>
   rows_unassigned (fold (\<lambda>x. if c x then id else save_download_task (g x)) xs w)"
  by (induction xs arbitrary: w) (simp_all add: rows_unassigned_save)

lemma rows_unassigned_member:
  "rows_unassigned w \<Longrightarrow> d \<in> set (w_download_tasks w) \<Longrightarrow> columns_unassigned d"
  by (simp add: rows_unassigned_def list_all_iff)

lemma cancel_task_unassigned:
  assumes r: "rows_unassigned w"
  shows "rows_unassigned (snd (cancel_task task_id usr w))"
proof (cases "get_task w task_id")
  case None
  then show ?thesis using r by (simp add: cancel_task_def)
next
  case (Some task)
  define w1 where "w1 = save_task (fst (obj_log (task \<lparr> t_status := TASK_CANCELED,
                                      t_end_time := Some (datetime_now w) \<rparr>) INFO UserCanceled w))
                          (snd (obj_log (task \<lparr> t_status := TASK_CANCELED,
                                      t_end_time := Some (datetime_now w) \<rparr>) INFO UserCanceled w))"
  have rows: "w_download_tasks w1 = w_download_tasks w"
    by (simp add: w1_def save_task_rows obj_log_rows)
  have r1: "rows_unassigned w1"
    using r by (simp add: rows_unassigned_cong [OF rows])
  have u: "\<forall>x \<in> set (filter (\<lambda>d. d_task_id d = t_id task \<and>
                                d_status d \<in> {PENDING, DOWNLOADING, RETRY}) (w_download_tasks w1)).
             columns_unassigned (x \<lparr> d_status := CANCELED, d_error_message := Some CanceledByUser \<rparr>)"
    using rows_unassigned_member [OF r1] by (auto simp: columns_unassigned_def)
  note f = fold_save_unassigned [OF r1 u, of "\<lambda>x. False"]
  show ?thesis
    using Some r f unfolding w1_def
    by (simp add: cancel_task_def Let_def)
qed

lemma continue_download_task_unassigned:
  "columns_unassigned d \<Longrightarrow> columns_unassigned (fst (continue_download_task w d))"
  by (simp add: continue_download_task_def columns_unassigned_def)

lemma continue_failed_unassigned:
  "rows_unassigned w \<Longrightarrow> rows_unassigned (snd (continue_failed task_id w))"
  by (simp add: continue_failed_def Let_def rows_unassigned_cong [OF save_task_rows]
        rows_unassigned_cong [OF obj_log_rows] split: option.splits)

lemma continue_task_unassigned:
  assumes r: "rows_unassigned w"
  shows "rows_unassigned (snd (continue_task task_id usr n_files w))"
proof (cases "get_task w task_id")
  case None
  then show ?thesis using r by (simp add: continue_task_def)
next
  case (Some task)
  show ?thesis
  proof (cases "get_server w (t_server_id task)")
    case None
    then show ?thesis
      using Some r by (simp add: continue_task_def continue_failed_unassigned)
  next
    case (Some media_server)
    define w1 where "w1 = save_task (fst (obj_log (task \<lparr> t_status := TASK_RUNNING,
                                           t_start_time := Some (datetime_now w),
                                           t_end_time := None \<rparr>)
                            INFO (UserContinued (u_user_name usr)) w))
                          (snd (obj_log (task \<lparr> t_status := TASK_RUNNING,
                                           t_start_time := Some (datetime_now w),
                                           t_end_time := None \<rparr>)
                            INFO (UserContinued (u_user_name usr)) w))"
    have rows: "w_download_tasks w1 = w_download_tasks w"
      by (simp add: w1_def save_task_rows obj_log_rows)
    have r1: "rows_unassigned w1"
      using r by (simp add: rows_unassigned_cong [OF rows])
    have u: "\<forall>oc \<in> set (map (continue_download_task w1)
                (filter (\<lambda>d. d_task_id d = t_id task) (w_download_tasks w1))).
             columns_unassigned (fst oc)"
      using rows_unassigned_member [OF r1] by (auto simp: continue_download_task_unassigned)
    note f = fold_save_unassigned [OF r1 u, of "\<lambda>oc. snd oc = Kept \<or> snd oc = Untouched"]
    note p = process_directory_tree_unassigned [OF f]
    show ?thesis
      using \<open>get_task w task_id = Some task\<close> Some r p continue_failed_unassigned [OF p]
      unfolding w1_def
      by (simp add: continue_task_def Let_def split: option.splits)
  qed
qed

lemma delete_task_unassigned:
  assumes r: "rows_unassigned w"
  shows "rows_unassigned (snd (delete_task task_id usr w))"
proof -
  have f: "list_all columns_unassigned (filter P (w_download_tasks w))" for P
    using r by (simp add: rows_unassigned_def list_all_iff)
  show ?thesis
    using r f
    by (auto simp: delete_task_def Let_def rows_unassigned_def rmtree_def
          split: option.splits if_splits)
qed

lemma genstrm_ignores_constructor_interval:
  "genstrm (self \<lparr> sd_retry_interval_seconds := x \<rparr>) w = genstrm self w"
  by (simp add: genstrm_def)

lemma start_download_ignores_constructor_interval:
  "start_download (self \<lparr> rd_retry_interval_seconds := x \<rparr>) w = start_download self w"
  by (simp add: start_download_def)

lemma scenario_subtask_created:
  "scenario_subtask = new_download_task 1 1 ''/movies/a.mkv'' VIDEO (Some 0) 3"
  "scenario_resource_subtask = new_download_task 2 1 ''/show/poster.jpg'' IMAGE (Some 0) 3"
  by (simp_all add: scenario_subtask_def scenario_resource_subtask_def new_download_task_def)

subsection \<open>The exception clause\<close>

lemma on_exception_after_attempt:
  assumes g: "get_download_task w k = Some task" and tk: "get_task w tid = Some t"
    and un: "columns_unassigned task"
    and fr: "w_download_tasks w2 = w_download_tasks (snd (begin_attempt kind (Some tid) sid thread_num task w))"
            "w_tasks w2 = w_tasks (snd (begin_attempt kind (Some tid) sid thread_num task w))"
            "w_clock w2 = w_clock (snd (begin_attempt kind (Some tid) sid thread_num task w))"
  shows "\<exists>task' t'.
        get_download_task (snd (on_exception kind (Some tid) sid iv thread_num e
             (fst (begin_attempt kind (Some tid) sid thread_num task w)) w2)) k = Some task' \<and>
        get_task (snd (on_exception kind (Some tid) sid iv thread_num e
             (fst (begin_attempt kind (Some tid) sid thread_num task w)) w2)) tid = Some t' \<and>
        d_attempt_count task' = d_attempt_count task + 1 \<and>
        d_max_attempts task' = d_max_attempts task \<and>
        d_worker_id task' = None \<and> d_download_started task' = None \<and>
        d_download_completed task' = None \<and>
        (if d_attempt_count task + 1 < d_max_attempts task
         then d_status task' = RETRY \<and>
              d_retry_after task' = Some (datetime_now w + iv) \<and>
              last (t_log_content t') =
                (datetime_now w, WARNING,
                 RetryScheduled kind thread_num sid iv (file_name_of (d_source_path task))
                   (d_attempt_count task + 1) (d_max_attempts task))
         else d_status task' = FAILED \<and>
              last (t_log_content t') =
                (datetime_now w, ERROR,
                 FinalFailure kind thread_num sid (file_name_of (d_source_path task))
                   (d_max_attempts task)))"
proof -
  define b where "b = begin_attempt kind (Some tid) sid thread_num task w"
  have kid: "d_id task = k" using g by (rule get_download_task_id)
  have bf: "d_id (fst b) = d_id task" "d_attempt_count (fst b) = d_attempt_count task"
    "d_max_attempts (fst b) = d_max_attempts task" "d_worker_id (fst b) = d_worker_id task"
    "d_download_started (fst b) = d_download_started task"
    "d_download_completed (fst b) = d_download_completed task"
    "d_source_path (fst b) = d_source_path task" "w_clock (snd b) = w_clock w"
    unfolding b_def by (rule begin_attempt_fields)+
  have row: "get_download_task w2 k = Some (fst b)"
    using begin_attempt_row [OF g, of kind "Some tid" sid thread_num]
      get_download_task_cong [OF fr(1), of k]
    unfolding b_def by simp
  obtain t1 where t1: "get_task w2 tid = Some t1"
    using begin_attempt_task [OF tk, of kind "Some tid" sid thread_num task]
      get_task_cong [OF fr(2), of tid]
    by auto
  have clk: "datetime_now w2 = datetime_now w"
    using fr(3) bf(8) unfolding b_def by (simp add: datetime_now_def)
  have idb: "d_id (fst b) = k" using kid bf(1) by simp
  have u: "d_worker_id task = None" "d_download_started task = None"
    "d_download_completed task = None"
    using un by (simp_all add: columns_unassigned_def)
  note r1 = on_exception_row [OF row idb, of kind "Some tid" sid iv thread_num e]
  note r2 = on_exception_task [OF t1, of kind sid iv thread_num e "fst b"]
  show ?thesis
    unfolding b_def [symmetric] r1 r2 clk using bf u by simp
qed

lemma strm_process_single_task_raises:
  assumes g: "get_download_task w k = Some task"
    and nc: "\<not> task_is_canceled w (d_task_id task)"
    and c: "createstrm self
        (d_source_path (fst (begin_attempt STRM_GENERATION (sd_task self) (sd_task_id self)
                               thread_num task w)))
        (sd_base_url self) (sd_output_dir self)
        (snd (begin_attempt STRM_GENERATION (sd_task self) (sd_task_id self) thread_num task w))
       = (Inl e, w2)"
  shows "strm_process_single_task self k thread_num w =
                on_exception STRM_GENERATION (sd_task self) (sd_task_id self)
                  (sd_retry_interval_seconds self) thread_num e
                  (fst (begin_attempt STRM_GENERATION (sd_task self) (sd_task_id self)
                               thread_num task w)) w2"
  unfolding strm_process_single_task_def Let_def using g nc c by simp

lemma rd_process_single_task_raises:
  assumes g: "get_download_task w k = Some task"
    and nc: "\<not> task_is_canceled w (d_task_id task)"
    and c: "download_worker rd
        (fst (begin_attempt RESOURCE_DOWNLOAD (rd_task rd) (rd_task_id rd) thread_num task w))
        (snd (begin_attempt RESOURCE_DOWNLOAD (rd_task rd) (rd_task_id rd) thread_num task w))
       = (Inl e, w2)"
  shows "rd_process_single_task rd k thread_num w =
                on_exception RESOURCE_DOWNLOAD (rd_task rd) (rd_task_id rd)
                  (rd_retry_interval_seconds rd) thread_num e
                  (fst (begin_attempt RESOURCE_DOWNLOAD (rd_task rd) (rd_task_id rd)
                               thread_num task w)) w2"
  unfolding rd_process_single_task_def Let_def using g nc c by simp

text \<open>
  C2: when the handler of a Sub-Task of either kind raises, attempts is incremented by
  one, and worker id and the start and end timestamps hold nothing afterwards; if the new
  count is below max-attempts the status becomes retry, retry-after is now plus the retry
  interval of the settings row, and a WARNING line ends the Task log; otherwise the status
  becomes failed and an ERROR line ends the Task log.

  The Sub-Task is a row as the code can hold it (\<open>columns_unassigned\<close>, kept by every
  operation above): the retry branch assigns \<open>None\<close> to the three columns, the failed
  branch assigns nothing to them. The processor holds the interval that \<open>genstrm\<close> and
  \<open>start_download\<close> load (\<open>settings_retry_interval\<close>: the value of the settings row, 30 when
  there is no row), and it holds its Task object, as at every place that constructs one.
\<close>

theorem handler_exception_retry_or_fail:
  assumes g: "get_download_task w k = Some task"
    and un: "columns_unassigned task"
    and nc: "\<not> task_is_canceled w (d_task_id task)"
    and tk: "get_task w tid = Some t"
  shows
   "(sd_task self = Some tid \<and>
     sd_retry_interval_seconds self = settings_retry_interval w \<and>
     createstrm self
        (d_source_path (fst (begin_attempt STRM_GENERATION (sd_task self) (sd_task_id self)
                               thread_num task w)))
        (sd_base_url self) (sd_output_dir self)
        (snd (begin_attempt STRM_GENERATION (sd_task self) (sd_task_id self) thread_num task w))
       = (Inl e, w2) \<longrightarrow>
     (\<exists>task' t'.
        get_download_task (snd (strm_process_single_task self k thread_num w)) k = Some task' \<and>
        get_task (snd (strm_process_single_task self k thread_num w)) tid = Some t' \<and>
        d_attempt_count task' = d_attempt_count task + 1 \<and>
        d_max_attempts task' = d_max_attempts task \<and>
        d_worker_id task' = None \<and> d_download_started task' = None \<and>
        d_download_completed task' = None \<and>
        (if d_attempt_count task + 1 < d_max_attempts task
         then d_status task' = RETRY \<and>
              d_retry_after task' = Some (datetime_now w + settings_retry_interval w) \<and>
              last (t_log_content t') =
                (datetime_now w, WARNING,
                 RetryScheduled STRM_GENERATION thread_num (sd_task_id self)
                   (settings_retry_interval w) (file_name_of (d_source_path task))
                   (d_attempt_count task + 1) (d_max_attempts task))
         else d_status task' = FAILED \<and>
              last (t_log_content t') =
                (datetime_now w, ERROR,
                 FinalFailure STRM_GENERATION thread_num (sd_task_id self)
                   (file_name_of (d_source_path task)) (d_max_attempts task))))) \<and>
    (rd_task rd = Some tid \<and>
     rd_retry_interval_seconds rd = settings_retry_interval w \<and>
     download_worker rd
        (fst (begin_attempt RESOURCE_DOWNLOAD (rd_task rd) (rd_task_id rd) thread_num task w))
        (snd (begin_attempt RESOURCE_DOWNLOAD (rd_task rd) (rd_task_id rd) thread_num task w))
       = (Inl e, w3) \<longrightarrow>
     (\<exists>task' t'.
        get_download_task (snd (rd_process_single_task rd k thread_num w)) k = Some task' \<and>
        get_task (snd (rd_process_single_task rd k thread_num w)) tid = Some t' \<and>
        d_attempt_count task' = d_attempt_count task + 1 \<and>
        d_max_attempts task' = d_max_attempts task \<and>
        d_worker_id task' = None \<and> d_download_started task' = None \<and>
        d_download_completed task' = None \<and>
        (if d_attempt_count task + 1 < d_max_attempts task
         then d_status task' = RETRY \<and>
              d_retry_after task' = Some (datetime_now w + settings_retry_interval w) \<and>
              last (t_log_content t') =
                (datetime_now w, WARNING,
                 RetryScheduled RESOURCE_DOWNLOAD thread_num (rd_task_id rd)
                   (settings_retry_interval w) (file_name_of (d_source_path task))
                   (d_attempt_count task + 1) (d_max_attempts task))
         else d_status task' = FAILED \<and>
              last (t_log_content t') =
                (datetime_now w, ERROR,
                 FinalFailure RESOURCE_DOWNLOAD thread_num (rd_task_id rd)
                   (file_name_of (d_source_path task)) (d_max_attempts task)))))"
    (is "(?strm_raises \<longrightarrow> ?strm_outcome) \<and> (?rd_raises \<longrightarrow> ?rd_outcome)")
proof (intro conjI impI)
  assume a: ?strm_raises
  from a have st: "sd_task self = Some tid" by (rule conjunct1)
  note iv = a [THEN conjunct2, THEN conjunct1]
  note c = a [THEN conjunct2, THEN conjunct2]
  note fr = createstrm_frame [OF c, unfolded st]
  show ?strm_outcome
    unfolding strm_process_single_task_raises [OF g nc c] st iv
    by (rule on_exception_after_attempt [OF g tk un conjunct1 [OF fr]
               conjunct1 [OF conjunct2 [OF fr]] conjunct2 [OF conjunct2 [OF fr]]])
next
  assume a: ?rd_raises
  from a have st: "rd_task rd = Some tid" by (rule conjunct1)
  note iv = a [THEN conjunct2, THEN conjunct1]
  note c = a [THEN conjunct2, THEN conjunct2]
  note fr = download_worker_frame [OF c, unfolded st]
  show ?rd_outcome
    unfolding rd_process_single_task_raises [OF g nc c] st iv
    by (rule on_exception_after_attempt [OF g tk un conjunct1 [OF fr]
               conjunct1 [OF conjunct2 [OF fr]] conjunct2 [OF conjunct2 [OF fr]]])
qed

text \<open>
  Witness for C2: a STRM target that cannot be written, on the first of three attempts,
  and a download answered with status 500, on the last of three; the settings row asks
  for 45 seconds between attempts.
\<close>

theorem handler_exception_retry_or_fail_witness:
  "(\<exists>task' t'.
      get_download_task (snd (strm_process_single_task slow_retry_writer 1 1 slow_retry_world)) 1
        = Some task' \<and>
      get_task (snd (strm_process_single_task slow_retry_writer 1 1 slow_retry_world)) 1
        = Some t' \<and>
      d_attempt_count task' = 1 \<and> d_max_attempts task' = 3 \<and>
      d_worker_id task' = None \<and> d_download_started task' = None \<and>
      d_download_completed task' = None \<and>
      d_status task' = RETRY \<and> d_retry_after task' = Some 145 \<and>
      last (t_log_content t') =
        (100, WARNING, RetryScheduled STRM_GENERATION 1 (Some 1) 45 (Some ''a.mkv'') 1 3)) \<and>
   (\<exists>task' t'.
      get_download_task
        (snd (rd_process_single_task last_attempt_downloader 2 1 last_attempt_download_world)) 2
        = Some task' \<and>
      get_task
        (snd (rd_process_single_task last_attempt_downloader 2 1 last_attempt_download_world)) 1
        = Some t' \<and>
      d_attempt_count task' = 3 \<and> d_max_attempts task' = 3 \<and>
      d_worker_id task' = None \<and> d_download_started task' = None \<and>
      d_download_completed task' = None \<and>
      d_status task' = FAILED \<and>
      last (t_log_content t') =
        (100, ERROR, FinalFailure RESOURCE_DOWNLOAD 1 (Some 1) (Some ''poster.jpg'') 3))"
proof -
  have g1: "get_download_task slow_retry_world 1 = Some scenario_subtask" by code_simp
  have u1: "columns_unassigned scenario_subtask" by code_simp
  have n1: "\<not> task_is_canceled slow_retry_world (d_task_id scenario_subtask)" by code_simp
  have t1: "get_task slow_retry_world 1 = Some scenario_task" by code_simp
  have c1: "sd_task slow_retry_writer = Some 1 \<and>
     sd_retry_interval_seconds slow_retry_writer = settings_retry_interval slow_retry_world \<and>
     createstrm slow_retry_writer
        (d_source_path (fst (begin_attempt STRM_GENERATION (sd_task slow_retry_writer)
                               (sd_task_id slow_retry_writer) 1 scenario_subtask slow_retry_world)))
        (sd_base_url slow_retry_writer) (sd_output_dir slow_retry_writer)
        (snd (begin_attempt STRM_GENERATION (sd_task slow_retry_writer)
                (sd_task_id slow_retry_writer) 1 scenario_subtask slow_retry_world))
       = (Inl OSError, slow_retry_world \<lparr> w_dirs := [''/o'', ''/o/movies''] \<rparr>)"
    by code_simp
  have v1: "d_attempt_count scenario_subtask + 1 = 1"
    "d_attempt_count scenario_subtask + 1 < d_max_attempts scenario_subtask"
    "d_max_attempts scenario_subtask = 3"
    "datetime_now slow_retry_world = 100" "settings_retry_interval slow_retry_world = 45"
    "sd_task_id slow_retry_writer = Some 1"
    "file_name_of (d_source_path scenario_subtask) = Some ''a.mkv''"
    by code_simp+
  have g2: "get_download_task last_attempt_download_world 2
              = Some last_attempt_resource_subtask" by code_simp
  have u2: "columns_unassigned last_attempt_resource_subtask"
    by code_simp
  have n2: "\<not> task_is_canceled last_attempt_download_world
                (d_task_id last_attempt_resource_subtask)"
    by code_simp
  have t2: "get_task last_attempt_download_world 1 = Some scenario_task" by code_simp
  have c2: "rd_task last_attempt_downloader = Some 1 \<and>
     rd_retry_interval_seconds last_attempt_downloader
       = settings_retry_interval last_attempt_download_world \<and>
     download_worker last_attempt_downloader
        (fst (begin_attempt RESOURCE_DOWNLOAD (rd_task last_attempt_downloader)
                (rd_task_id last_attempt_downloader) 1
                last_attempt_resource_subtask
                last_attempt_download_world))
        (snd (begin_attempt RESOURCE_DOWNLOAD (rd_task last_attempt_downloader)
                (rd_task_id last_attempt_downloader) 1
                last_attempt_resource_subtask
                last_attempt_download_world))
       = (Inl (HTTPStatusError 500),
          last_attempt_download_world \<lparr> w_dirs := [''/o'', ''/o/show''] \<rparr>)"
    by code_simp
  have v2: "d_attempt_count last_attempt_resource_subtask + 1 = 3"
    "\<not> d_attempt_count last_attempt_resource_subtask + 1
         < d_max_attempts last_attempt_resource_subtask"
    "d_max_attempts last_attempt_resource_subtask = 3"
    "datetime_now last_attempt_download_world = 100"
    "rd_task_id last_attempt_downloader = Some 1"
    "file_name_of (d_source_path last_attempt_resource_subtask)
       = Some ''poster.jpg''"
    by code_simp+
  note a = handler_exception_retry_or_fail [OF g1 u1 n1 t1, THEN conjunct1, rule_format, OF c1]
  note b = handler_exception_retry_or_fail [OF g2 u2 n2 t2, THEN conjunct2, rule_format, OF c2]
  show ?thesis
    using a b unfolding v1 v2 by simp
qed

text \<open>
  The handler as \<open>genstrm\<close> and \<open>start_download\<close> call it: whatever interval the processor
  was constructed with, the batches run with the one of the settings row.
\<close>

lemma genstrm_one_subtask:
  assumes "sd_task_list self = [k]" and "sd_max_threads self \<noteq> 0"
    and "\<not> self_task_canceled (sd_task self) w"
  shows "w_download_tasks (snd (genstrm self w)) =
         w_download_tasks (snd (strm_process_single_task
            (self \<lparr> sd_retry_interval_seconds := settings_retry_interval w \<rparr>) k 1 w))"
proof -
  have c: "chunks (sd_max_threads self) [k] = [[k]]"
    using assms(2) by (subst chunks.simps, subst chunks.simps) simp
  show ?thesis
    using assms c
    by (simp add: genstrm_def Let_def strm_after_batch_frame)
qed

lemma start_download_one_subtask:
  assumes "rd_task_list self = [k]" and "rd_threads self \<noteq> 0"
    and "\<not> self_task_canceled (rd_task self) w"
  shows "w_download_tasks (snd (start_download self w)) =
         w_download_tasks (snd (rd_process_single_task
            (self \<lparr> rd_retry_interval_seconds := settings_retry_interval w \<rparr>) k 1 w))"
proof -
  have c: "chunks (rd_threads self) [k] = [[k]]"
    using assms(2) by (subst chunks.simps, subst chunks.simps) simp
  show ?thesis
    using assms c
    by (simp add: start_download_def Let_def rd_after_batch_frame)
qed

lemma genstrm_retry_after_from_settings:
  "map d_retry_after (w_download_tasks (snd (genstrm scenario_writer slow_retry_world)))
     = [Some 145]"
  by code_simp

section \<open>Path rewrite\<close>

text \<open>
  C4 as stated: with prefix \<open>nas2\<close> and base \<open>http://m\<close> the STRM file for
  \<open>/movies/a.mkv\<close> would hold \<open>http://m/nas2/movies/a.mkv\<close>. The rewrite replaces the
  first segment, it does not put the prefix in front: the file holds \<open>http://m/nas2/a.mkv\<close>.
\<close>

theorem path_rewrite_url_counterexample:
  "map_of (w_files (snd (strm_process_single_task scenario_writer 1 1 scenario_world)))
      ''/o/movies/a.strm'' = Some ''http://m/nas2/a.mkv'' \<and>
   map_of (w_files (snd (strm_process_single_task scenario_writer 1 1 scenario_world)))
      ''/o/movies/a.strm'' \<noteq> Some ''http://m/nas2/movies/a.mkv''"
  by code_simp

text \<open>
  C4, amended: with path rewrite enabled, prefix \<open>nas2\<close>, base \<open>http://m\<close> and output
  \<open>/o\<close>, the STRM writer succeeds on the Sub-Task \<open>/movies/a.mkv\<close>, writes the one file
  \<open>/o/movies/a.strm\<close> whose whole content is \<open>http://m/nas2/a.mkv\<close> (the first segment
  \<open>movies\<close> is replaced by the prefix), and leaves the source path \<open>/movies/a.mkv\<close>. The
  URL \<open>http://m/nas2/movies/a.mkv\<close> is the one of the source path \<open>/nas/movies/a.mkv\<close>.
\<close>

theorem path_rewrite_replaces_first_segment:
  "fst (strm_process_single_task scenario_writer 1 1 scenario_world) \<and>
   w_files (snd (strm_process_single_task scenario_writer 1 1 scenario_world)) =
     [(''/o/movies/a.strm'', ''http://m/nas2/a.mkv'')] \<and>
   map d_source_path
     (w_download_tasks (snd (strm_process_single_task scenario_writer 1 1 scenario_world))) =
     [''/movies/a.mkv''] \<and>
   replace_base_path ''/movies/a.mkv'' (Some ''nas2'') = ''/nas2/a.mkv'' \<and>
   strm_url scenario_writer ''/nas/movies/a.mkv'' ''http://m'' = ''http://m/nas2/movies/a.mkv''"
  by code_simp

section \<open>Terminal reconciliation\<close>

text \<open>
  The final block of \<open>process_directory_tree\<close> never changes the status of the Task row,
  and sets no end time unless the Task is canceled: what it assigns to the object is
  reloaded away before the object is saved.
\<close>

lemma obj_log_fst:
  "fst (obj_log task l m w) = task \<lparr> t_log_content := t_log_content task @ [(datetime_now w, l, m)] \<rparr>"
  by (simp add: obj_log_def Let_def)

lemma obj_log_status:
  assumes "get_task w (t_id task) = Some row"
  shows "\<exists>row'. get_task (snd (obj_log task l m w)) (t_id task) = Some row' \<and>
               t_status row' = t_status row \<and> t_end_time row' = t_end_time row"
  using obj_log_tasks_get [OF assms, of l m] by simp

lemma obj_logs_status:
  "get_task w (t_id task) = Some row \<Longrightarrow>
   \<exists>row'. get_task (snd (obj_logs task ms w)) (t_id task) = Some row' \<and>
          t_status row' = t_status row \<and> t_end_time row' = t_end_time row \<and>
          t_id (fst (obj_logs task ms w)) = t_id task \<and>
          t_status (fst (obj_logs task ms w)) = t_status task \<and>
          t_end_time (fst (obj_logs task ms w)) = t_end_time task"
proof (induction ms arbitrary: task w row)
  case Nil
  then show ?case by simp
next
  case (Cons m ms)
  let ?r = "obj_log task (fst m) (snd m) w"
  have f: "t_id (fst ?r) = t_id task" "t_status (fst ?r) = t_status task"
    "t_end_time (fst ?r) = t_end_time task"
    by (simp_all add: obj_log_fst)
  from obj_log_status [OF Cons.prems, of "fst m" "snd m"]
  obtain row1 where r1: "get_task (snd ?r) (t_id task) = Some row1"
    "t_status row1 = t_status row" "t_end_time row1 = t_end_time row" by blast
  from r1(1) f(1) have "get_task (snd ?r) (t_id (fst ?r)) = Some row1" by simp
  from Cons.IH [OF this, unfolded f] r1(2,3)
  show ?case by (simp add: Let_def f)
qed

lemma obj_log_task_progress_status:
  assumes "get_task w (t_id task) = Some row"
  shows "\<exists>row'. get_task (snd (obj_log_task_progress task a b st w)) (t_id task) = Some row' \<and>
          t_status row' = t_status row \<and> t_end_time row' = t_end_time row \<and>
          t_id (fst (obj_log_task_progress task a b st w)) = t_id task \<and>
          t_status (fst (obj_log_task_progress task a b st w)) = t_status row \<and>
          t_end_time (fst (obj_log_task_progress task a b st w)) = t_end_time row"
proof -
  have rid: "t_id row = t_id task" using assms by (rule get_task_id)
  have rf: "obj_refresh task w = row" using assms by (simp add: obj_refresh_def)
  have g: "get_task w (t_id row) = Some row" using assms rid by simp
  show ?thesis
    using assms obj_log_status [OF g] rid
    by (auto simp: obj_log_task_progress_def Let_def rf obj_log_fst)
qed

lemma finish_task_keeps_row_status:
  assumes "get_task w tid = Some task"
  shows "\<exists>task'. get_task (finish_task tid end_time elapsed w) tid = Some task' \<and>
           t_status task' = t_status task \<and>
           (t_status task \<noteq> TASK_CANCELED \<longrightarrow> t_end_time task' = t_end_time task)"
proof -
  have tid: "t_id task = tid" using assms by (rule get_task_id)
  show ?thesis
  proof (cases "t_status task = TASK_CANCELED")
    case True
    let ?o = "task \<lparr> t_end_time := Some end_time, t_download_duration := Some elapsed \<rparr>"
    let ?r = "obj_log ?o INFO CanceledStop w"
    have "get_task w (t_id ?o) = Some task" using assms tid by simp
    from obj_log_status [OF this, of INFO CanceledStop]
    obtain row' where "get_task (snd ?r) tid = Some row'" using tid by auto
    then have "get_task (save_task (fst ?r) (snd ?r)) tid = Some (fst ?r)"
      by (rule get_task_save_task) (simp add: obj_log_fst tid)
    then show ?thesis
      using assms True by (simp add: finish_task_def Let_def obj_log_fst)
  next
    case False
    let ?all = "filter (\<lambda>d. d_task_id d = t_id task) (w_download_tasks w)"
    let ?o = "decide_task task ?all end_time elapsed"
    have oid: "t_id ?o = tid" using tid by (simp add: decide_task_def Let_def)
    have g0: "get_task w (t_id ?o) = Some task" using assms oid by simp
    have step1: "\<exists>row'. get_task (snd (obj_log ?o l m w)) tid = Some row' \<and>
               t_status row' = t_status task \<and> t_end_time row' = t_end_time task" for l m
      using obj_log_status [OF g0, of l m] oid by simp
    have fid: "t_id (fst (obj_log ?o l m w)) = tid" for l m
      using oid by (simp add: obj_log_fst)
    have step2: "\<exists>row'. get_task (snd (obj_log_task_progress (fst (obj_log ?o l m w)) a b st
                                       (snd (obj_log ?o l m w)))) tid = Some row' \<and>
          t_status row' = t_status task \<and> t_end_time row' = t_end_time task \<and>
          t_id (fst (obj_log_task_progress (fst (obj_log ?o l m w)) a b st
                       (snd (obj_log ?o l m w)))) = tid \<and>
          t_status (fst (obj_log_task_progress (fst (obj_log ?o l m w)) a b st
                       (snd (obj_log ?o l m w)))) = t_status task \<and>
          t_end_time (fst (obj_log_task_progress (fst (obj_log ?o l m w)) a b st
                       (snd (obj_log ?o l m w)))) = t_end_time task" for l m a b st
    proof -
      from step1 [of l m] obtain row1 where r1: "get_task (snd (obj_log ?o l m w)) tid = Some row1"
        "t_status row1 = t_status task" "t_end_time row1 = t_end_time task" by blast
      have "get_task (snd (obj_log ?o l m w)) (t_id (fst (obj_log ?o l m w))) = Some row1"
        using r1(1) fid by simp
      from obj_log_task_progress_status [OF this, of a b st] r1(2,3) fid
      show ?thesis by simp
    qed
    have step3: "\<exists>task'. get_task (save_task (fst (obj_logs ob ms w2)) (snd (obj_logs ob ms w2))) tid
                    = Some task' \<and> t_status task' = t_status task \<and>
                  t_end_time task' = t_end_time task"
      if h: "get_task w2 tid = Some row" "t_id ob = tid" "t_status ob = t_status task"
            "t_end_time ob = t_end_time task"
      for ob ms w2 row
    proof -
      have "get_task w2 (t_id ob) = Some row" using h by simp
      from obj_logs_status [OF this, of ms]
      obtain row' where r: "get_task (snd (obj_logs ob ms w2)) tid = Some row'"
        "t_id (fst (obj_logs ob ms w2)) = tid"
        "t_status (fst (obj_logs ob ms w2)) = t_status task"
        "t_end_time (fst (obj_logs ob ms w2)) = t_end_time task"
        using h by auto
      from get_task_save_task [OF r(1) r(2)] r(3,4) show ?thesis by simp
    qed
    have fin: "\<exists>task'. get_task (save_task (fst (obj_logs
                   (fst (obj_log_task_progress (fst (obj_log ?o l m w)) a b st
                           (snd (obj_log ?o l m w)))) ms
                   (snd (obj_log_task_progress (fst (obj_log ?o l m w)) a b st
                           (snd (obj_log ?o l m w))))))
                 (snd (obj_logs
                   (fst (obj_log_task_progress (fst (obj_log ?o l m w)) a b st
                           (snd (obj_log ?o l m w)))) ms
                   (snd (obj_log_task_progress (fst (obj_log ?o l m w)) a b st
                           (snd (obj_log ?o l m w))))))) tid = Some task' \<and>
             t_status task' = t_status task \<and> t_end_time task' = t_end_time task"
      for l m a b st ms
    proof -
      from step2 [of l m a b st] obtain row2 where
        "get_task (snd (obj_log_task_progress (fst (obj_log ?o l m w)) a b st
                          (snd (obj_log ?o l m w)))) tid = Some row2"
        "t_id (fst (obj_log_task_progress (fst (obj_log ?o l m w)) a b st
                       (snd (obj_log ?o l m w)))) = tid"
        "t_status (fst (obj_log_task_progress (fst (obj_log ?o l m w)) a b st
                       (snd (obj_log ?o l m w)))) = t_status task"
        "t_end_time (fst (obj_log_task_progress (fst (obj_log ?o l m w)) a b st
                       (snd (obj_log ?o l m w)))) = t_end_time task"
        by blast
      then show ?thesis by (rule step3)
    qed
    show ?thesis
      using assms False fin
      by (simp add: finish_task_def Let_def tid del: obj_logs.simps)
  qed
qed

text \<open>
  C1 (the code departs from it): a processor run through both phases on the scenario
  Task. When the only Sub-Task fails its last attempt it ends failed, and the Task row
  is still running afterwards, not failed: the status assigned in memory is dropped by
  the reload at the start of \<open>log_task_progress\<close> before \<open>save()\<close>. When the Sub-Task fails
  its first attempt it ends in retry, and the status the final block decides for the Task
  is completed.
\<close>

theorem processor_run_loses_terminal_status:
  "map d_status (w_download_tasks
      (snd (process_directory_tree 1 1 ''/o'' (Some 1) (Some 1) last_attempt_world))) = [FAILED] \<and>
   map t_status (w_tasks
      (snd (process_directory_tree 1 1 ''/o'' (Some 1) (Some 1) last_attempt_world)))
     = [TASK_RUNNING] \<and>
   map d_status (w_download_tasks
      (snd (process_directory_tree 1 1 ''/o'' (Some 1) (Some 1) unwritable_world))) = [RETRY] \<and>
   t_status (decide_task scenario_task
      (w_download_tasks (snd (process_directory_tree 1 1 ''/o'' (Some 1) (Some 1)
                                unwritable_world))) 100 0) = TASK_COMPLETED \<and>
   map t_status (w_tasks
      (snd (process_directory_tree 1 1 ''/o'' (Some 1) (Some 1) unwritable_world)))
     = [TASK_RUNNING]"
  by code_simp

end
